theory Spec2Isabelle
  imports Complex_Main "HOL-Library.Word"
begin

section \<open>Floating-point values and the numpy operations of the fitting engine\<close>

text \<open>
  The arrays of \<^verbatim>\<open>amico/core.py\<close> hold IEEE-754 binary32 and binary64 numbers. A value
  is a finite real, an infinity or NaN; the two zeros are identified (the code never looks
  at the sign of a zero). An arithmetic operation is the exact operation followed by
  rounding to nearest, ties to even, in the format of the result; numpy does not raise on
  division by zero, overflow or invalid operands but returns an infinity or NaN.
\<close>

datatype fl = Fin real | PInf | NInf | NaN

datatype fmt = F32 | F64

fun prec :: "fmt \<Rightarrow> int" where
  "prec F32 = 24"
| "prec F64 = 53"

fun emin :: "fmt \<Rightarrow> int" where
  "emin F32 = - 126"
| "emin F64 = - 1022"

fun emax :: "fmt \<Rightarrow> int" where
  "emax F32 = 127"
| "emax F64 = 1023"

definition pow2 :: "int \<Rightarrow> real" where
  "pow2 e = (if 0 \<le> e then 2 ^ nat e else 1 / 2 ^ nat (- e))"

text \<open>The binary exponent of a positive real: \<open>pow2 (ilog2 x) \<le> x < pow2 (ilog2 x + 1)\<close>.\<close>

function ilog2 :: "real \<Rightarrow> int" where
  "ilog2 x = (if x \<le> 0 then 0
              else if 2 \<le> x then ilog2 (x / 2) + 1
              else if x < 1 then ilog2 (2 * x) - 1
              else 0)"
  by pat_completeness auto
termination
proof (relation "measure (\<lambda>x. nat \<bar>\<lfloor>log 2 x\<rfloor>\<bar>)")
  show "wf (measure (\<lambda>x. nat \<bar>\<lfloor>log 2 x\<rfloor>\<bar>))" by simp
next
  fix x :: real
  assume a: "\<not> x \<le> 0" "2 \<le> x"
  have "log 2 (x / 2) = log 2 x - 1" using a by (simp add: log_divide)
  moreover have "1 \<le> log 2 x" using a by (simp add: le_log_iff)
  ultimately show "(x / 2, x) \<in> measure (\<lambda>x. nat \<bar>\<lfloor>log 2 x\<rfloor>\<bar>)"
    by simp
next
  fix x :: real
  assume a: "\<not> x \<le> 0" "\<not> 2 \<le> x" "x < 1"
  have "log 2 (2 * x) = log 2 x + 1" using a by (simp add: log_mult)
  then have "\<lfloor>log 2 (2 * x)\<rfloor> = \<lfloor>log 2 x\<rfloor> + 1" by simp
  moreover have "\<lfloor>log 2 x\<rfloor> < 0" using a by (simp add: floor_less_iff)
  ultimately show "(2 * x, x) \<in> measure (\<lambda>x. nat \<bar>\<lfloor>log 2 x\<rfloor>\<bar>)"
    unfolding in_measure by linarith
qed

declare ilog2.simps [simp del]

text \<open>Rounding a real to the nearest integer, a tie going to the even neighbour.\<close>

definition rne :: "real \<Rightarrow> int" where
  "rne q = (let n = \<lfloor>q\<rfloor>; d = q - of_int n
            in if d < 1 / 2 then n
               else if 1 / 2 < d then n + 1
               else if even n then n else n + 1)"

text \<open>
  Rounding a real into a format: the unit in the last place comes from the exponent
  (clipped at the smallest normal exponent, which gives the subnormal numbers); a result
  beyond the largest finite number is an infinity.
\<close>

definition rnd :: "fmt \<Rightarrow> real \<Rightarrow> fl" where
  "rnd f x =
     (if x = 0 then Fin 0
      else let e = max (ilog2 \<bar>x\<bar>) (emin f);
               u = pow2 (e - (prec f - 1));
               m = of_int (rne (\<bar>x\<bar> / u)) * u
           in if pow2 (emax f + 1) \<le> m then (if 0 < x then PInf else NInf)
              else Fin (sgn x * m))"

fun f_neg :: "fl \<Rightarrow> fl" where
  "f_neg (Fin a) = Fin (- a)"
| "f_neg PInf = NInf"
| "f_neg NInf = PInf"
| "f_neg NaN = NaN"

fun f_add :: "fmt \<Rightarrow> fl \<Rightarrow> fl \<Rightarrow> fl" where
  "f_add f NaN y = NaN"
| "f_add f x NaN = NaN"
| "f_add f PInf NInf = NaN"
| "f_add f NInf PInf = NaN"
| "f_add f PInf y = PInf"
| "f_add f x PInf = PInf"
| "f_add f NInf y = NInf"
| "f_add f x NInf = NInf"
| "f_add f (Fin a) (Fin b) = rnd f (a + b)"

definition f_sub :: "fmt \<Rightarrow> fl \<Rightarrow> fl \<Rightarrow> fl" where
  "f_sub f x y = f_add f x (f_neg y)"

fun f_sign :: "fl \<Rightarrow> bool" where
  "f_sign (Fin a) = (a < 0)"
| "f_sign PInf = False"
| "f_sign NInf = True"
| "f_sign NaN = False"

fun f_inf :: "bool \<Rightarrow> fl" where
  "f_inf negative = (if negative then NInf else PInf)"

fun f_mul :: "fmt \<Rightarrow> fl \<Rightarrow> fl \<Rightarrow> fl" where
  "f_mul f NaN y = NaN"
| "f_mul f x NaN = NaN"
| "f_mul f (Fin a) (Fin b) = rnd f (a * b)"
| "f_mul f (Fin a) y = (if a = 0 then NaN else f_inf (f_sign (Fin a) \<noteq> f_sign y))"
| "f_mul f x (Fin b) = (if b = 0 then NaN else f_inf (f_sign x \<noteq> f_sign (Fin b)))"
| "f_mul f x y = f_inf (f_sign x \<noteq> f_sign y)"

fun f_div :: "fmt \<Rightarrow> fl \<Rightarrow> fl \<Rightarrow> fl" where
  "f_div f NaN y = NaN"
| "f_div f x NaN = NaN"
| "f_div f (Fin a) (Fin b) =
     (if b = 0 then (if a = 0 then NaN else f_inf (a < 0)) else rnd f (a / b))"
| "f_div f (Fin a) y = Fin 0"
| "f_div f x (Fin b) = f_inf (f_sign x \<noteq> f_sign (Fin b))"
| "f_div f x y = NaN"

fun f_sqrt :: "fmt \<Rightarrow> fl \<Rightarrow> fl" where
  "f_sqrt f (Fin a) = (if a < 0 then NaN else rnd f (sqrt a))"
| "f_sqrt f PInf = PInf"
| "f_sqrt f NInf = NaN"
| "f_sqrt f NaN = NaN"

text \<open>The comparison \<open>x < y\<close>; it is false as soon as an operand is NaN.\<close>

fun f_lt :: "fl \<Rightarrow> fl \<Rightarrow> bool" where
  "f_lt NaN y = False"
| "f_lt x NaN = False"
| "f_lt (Fin a) (Fin b) = (a < b)"
| "f_lt x NInf = False"
| "f_lt PInf y = False"
| "f_lt NInf y = True"
| "f_lt x PInf = True"

fun isfinite :: "fl \<Rightarrow> bool" where
  "isfinite (Fin a) = True"
| "isfinite x = False"

text \<open>\<^verbatim>\<open>astype(np.float32)\<close> on one element.\<close>

fun to_f32 :: "fl \<Rightarrow> fl" where
  "to_f32 (Fin a) = rnd F32 a"
| "to_f32 x = x"

text \<open>
  \<^verbatim>\<open>np.add.reduce\<close> on a contiguous array of doubles: the result starts at the
  identity 0 and receives numpy's pairwise sum, which accumulates fewer than 8 elements
  from left to right, up to 128 elements in 8 interleaved accumulators, and splits longer
  arrays in two.
\<close>

function pairwise_sum :: "fl list \<Rightarrow> fl" where
  "pairwise_sum a =
     (if length a < 8 then foldl (f_add F64) (Fin 0) a
      else if length a \<le> 128 then
        (let nb = length a - length a mod 8;
             r = foldl (\<lambda>r i. map (\<lambda>j. f_add F64 (r ! j) (a ! (i + j))) [0..<8])
                       (take 8 a) (map (\<lambda>k. 8 * k) [1..<nb div 8]);
             res = f_add F64 (f_add F64 (f_add F64 (r ! 0) (r ! 1)) (f_add F64 (r ! 2) (r ! 3)))
                             (f_add F64 (f_add F64 (r ! 4) (r ! 5)) (f_add F64 (r ! 6) (r ! 7)))
         in foldl (f_add F64) res (drop nb a))
      else f_add F64 (pairwise_sum (take (length a div 2 - length a div 2 mod 8) a))
                     (pairwise_sum (drop (length a div 2 - length a div 2 mod 8) a)))"
  by pat_completeness auto
termination
proof (relation "measure length")
  show "wf (measure length)" by simp
next
  fix a :: "fl list"
  assume "\<not> length a \<le> 128"
  then show "(take (length a div 2 - length a div 2 mod 8) a, a) \<in> measure length"
    by simp
next
  fix a :: "fl list"
  assume big: "\<not> length a \<le> 128"
  have 1: "64 \<le> length a div 2" using big by linarith
  have 2: "length a div 2 mod 8 < 8" by simp
  have "0 < length a div 2 - length a div 2 mod 8" using 1 2 by linarith
  moreover have "0 < length a" using big by linarith
  ultimately show "(drop (length a div 2 - length a div 2 mod 8) a, a) \<in> measure length"
    unfolding in_measure length_drop by linarith
qed

declare pairwise_sum.simps [simp del]

definition np_sum :: "fl list \<Rightarrow> fl" where
  "np_sum a = f_add F64 (Fin 0) (pairwise_sum a)"

text \<open>\<^verbatim>\<open>np.mean\<close>: the sum divided by the number of items; NaN for an empty array.\<close>

definition np_mean :: "fl list \<Rightarrow> fl" where
  "np_mean a = f_div F64 (np_sum a) (rnd F64 (real (length a)))"

text \<open>
  Elementwise subtraction of two one-dimensional arrays, with numpy's broadcasting of an
  array of length 1; other length mismatches raise.
\<close>

datatype error =
    RuntimeError string
  | ValueError string
  | IndexError
  | TypeError
  | AttributeError
  | NameError
  | OSError
  | External string

definition np_subtract :: "fl list \<Rightarrow> fl list \<Rightarrow> error + fl list" where
  "np_subtract xs ys =
     (if length xs = length ys then Inr (map2 (f_sub F64) xs ys)
      else if length ys = 1 then Inr (map (\<lambda>x. f_sub F64 x (hd ys)) xs)
      else if length xs = 1 then Inr (map (\<lambda>y. f_sub F64 (hd xs) y) ys)
      else Inl (ValueError ''operands could not be broadcast together''))"

text \<open>\<^verbatim>\<open>y[idx]\<close> with an index array, and \<^verbatim>\<open>y[idx] = c\<close> with a scalar.\<close>

definition take_idx :: "'a list \<Rightarrow> nat list \<Rightarrow> error + 'a list" where
  "take_idx y idx =
     (if list_all (\<lambda>i. i < length y) idx then Inr (map (\<lambda>i. y ! i) idx) else Inl IndexError)"

definition put_idx :: "'a list \<Rightarrow> nat list \<Rightarrow> 'a \<Rightarrow> 'a list" where
  "put_idx y idx c = foldl (\<lambda>y i. y[i := c]) y idx"

section \<open>Volumes\<close>

text \<open>
  A volume is its spatial shape and its content per voxel \<open>(ix, iy, iz)\<close>: one value for a
  3D array, the vector along the last axis (of length \<open>len4\<close>) for a 4D array. Indexing
  outside the shape raises \<^verbatim>\<open>IndexError\<close>.
\<close>

type_synonym voxel = "nat \<times> nat \<times> nat"

fun in_shape :: "voxel \<Rightarrow> voxel \<Rightarrow> bool" where
  "in_shape (nx, ny, nz) (ix, iy, iz) = (ix < nx \<and> iy < ny \<and> iz < nz)"

record 'a array3 =
  shape3 :: voxel
  at3 :: "voxel \<Rightarrow> 'a"

record 'a array4 =
  shape4 :: voxel
  len4 :: nat
  at4 :: "voxel \<Rightarrow> 'a list"

definition zeros3 :: "voxel \<Rightarrow> fl array3" where
  "zeros3 d = \<lparr>shape3 = d, at3 = (\<lambda>v. Fin 0)\<rparr>"

definition zeros4 :: "voxel \<Rightarrow> nat \<Rightarrow> fl array4" where
  "zeros4 d n = \<lparr>shape4 = d, len4 = n, at4 = (\<lambda>v. replicate n (Fin 0))\<rparr>"

definition ones3 :: "voxel \<Rightarrow> 8 word array3" where
  "ones3 d = \<lparr>shape3 = d, at3 = (\<lambda>v. 1)\<rparr>"

definition astype_f32 :: "fl array4 \<Rightarrow> fl array4" where
  "astype_f32 A = A\<lparr>at4 := (\<lambda>v. map to_f32 (at4 A v))\<rparr>"

definition astype_uint8 :: "int array3 \<Rightarrow> 8 word array3" where
  "astype_uint8 A = \<lparr>shape3 = shape3 A, at3 = (\<lambda>v. word_of_int (at3 A v))\<rparr>"

definition get_row :: "'a array4 \<Rightarrow> voxel \<Rightarrow> error + 'a list" where
  "get_row A v = (if in_shape (shape4 A) v then Inr (at4 A v) else Inl IndexError)"

text \<open>
  Assigning a vector to the row of a voxel in a float32 array: the value is broadcast to
  the length of the row (equal length, or length 1) and cast to float32.
\<close>

definition broadcast_row :: "nat \<Rightarrow> 'a list \<Rightarrow> error + 'a list" where
  "broadcast_row n row =
     (if length row = n then Inr row
      else if length row = 1 then Inr (replicate n (hd row))
      else Inl (ValueError ''could not broadcast input array''))"

definition set_row :: "fl array4 \<Rightarrow> voxel \<Rightarrow> fl list \<Rightarrow> error + fl array4" where
  "set_row A v row =
     (if \<not> in_shape (shape4 A) v then Inl IndexError
      else case broadcast_row (len4 A) row of
             Inl e \<Rightarrow> Inl e
           | Inr r \<Rightarrow> Inr (A\<lparr>at4 := (at4 A)(v := map to_f32 r)\<rparr>))"

definition set_elem :: "fl array3 \<Rightarrow> voxel \<Rightarrow> fl \<Rightarrow> error + fl array3" where
  "set_elem E v x =
     (if \<not> in_shape (shape3 E) v then Inl IndexError
      else Inr (E\<lparr>at3 := (at3 E)(v := to_f32 x)\<rparr>))"

text \<open>The voxels in the order of the three nested loops: \<open>iz\<close> outermost, \<open>ix\<close> innermost.\<close>

definition voxels :: "voxel \<Rightarrow> voxel list" where
  "voxels d = (case d of (nx, ny, nz) \<Rightarrow>
     concat (map (\<lambda>iz. concat (map (\<lambda>iy. map (\<lambda>ix. (ix, iy, iz)) [0..<nx]) [0..<ny])) [0..<nz]))"

definition count_nonzero :: "8 word array3 \<Rightarrow> nat" where
  "count_nonzero m = length (filter (\<lambda>v. at3 m v \<noteq> 0) (voxels (shape3 m)))"

section \<open>The data of an evaluation\<close>

text \<open>
  The acquisition scheme (\<^verbatim>\<open>amico.scheme.Scheme\<close>), the kernels returned by the model's
  \<^verbatim>\<open>resample\<close>, the files read by nibabel and the model object are produced outside
  \<^verbatim>\<open>core.py\<close>; the engine reads the fields below and calls the model's methods, which are
  functions of their arguments.
\<close>

record amico_scheme =
  nS :: nat
  b :: "fl list"
  raw :: "fl list list"
  shells :: "(fl \<times> nat list) list"
  b0_idx :: "nat list"
  b0_count :: nat
  dwi_idx :: "nat list"

record 'k kernels =
  kmodel :: string
  kdata :: 'k

datatype entry = RegularFile string | Directory

type_synonym fs = "string \<rightharpoonup> (string \<times> entry) list"

record ('k, 'p, 'a, 'i) amico_model =
  model_id :: string
  model_name :: string
  OUTPUT_names :: "string list"
  OUTPUT_descriptions :: "string list"
  model_scheme :: "amico_scheme option"
  model_fit :: "fl list \<Rightarrow> fl list list \<Rightarrow> 'k kernels \<Rightarrow> nat list option \<Rightarrow> 'p option
                  \<Rightarrow> error + (fl list \<times> fl list \<times> fl list)"
  model_generate :: "amico_scheme option \<Rightarrow> string \<Rightarrow> 'a \<Rightarrow> 'i \<Rightarrow> 'i \<Rightarrow> fs
                       \<Rightarrow> error option \<times> fs"

record nifti =
  nii_data :: "fl array4"
  scl_slope :: fl
  scl_inter :: fl
  zooms :: "fl \<times> fl \<times> fl"

record mask_nifti =
  mask_data :: "int array3"
  mask_zooms :: "fl \<times> fl \<times> fl"

record results =
  res_DIRs :: "fl array4"
  res_MAPs :: "fl array4"
  res_NRMSE :: "fl array3 option"

record 'p config =
  study_path :: string
  subject :: string
  DATA_path :: string
  peaks_filename :: "string option"
  doNormalizeSignal :: bool
  doMergeB0 :: bool
  doComputeNRMSE :: bool
  dwi_filename :: "string option"
  scheme_filename :: "string option"
  b0_thr :: "fl option"
  dim :: "voxel option"
  pixdim :: "(fl \<times> fl \<times> fl) option"
  ATOMS_path :: "string option"
  solver_params :: "'p option"
  lmax :: "int option"
  fit_time :: "fl option"

record ('k, 'p, 'a, 'i) evaluation =
  niiDWI :: "nifti option"
  niiDWI_img :: "fl array4 option"
  scheme :: "amico_scheme option"
  niiMASK :: "mask_nifti option"
  niiMASK_img :: "8 word array3 option"
  model :: "('k, 'p, 'a, 'i) amico_model option"
  KERNELS :: "'k kernels option"
  RESULTS :: "results option"
  CONFIG :: "'p config"

text \<open>\<^verbatim>\<open>os.path.join\<close> of two components.\<close>

definition pjoin :: "string \<Rightarrow> string \<Rightarrow> string" where
  "pjoin a c =
     (if c \<noteq> [] \<and> hd c = CHR ''/'' then c
      else if a = [] \<or> last a = CHR ''/'' then a @ c
      else a @ ''/'' @ c)"

text \<open>
  What \<^verbatim>\<open>core.py\<close> calls outside itself: nibabel for the volumes, the constructor of the
  scheme, dipy's gradient table and tensor model (\<open>'g\<close> is the tensor model built before
  the loop), the lookup tables of \<^verbatim>\<open>amico.lut\<close> and the clock. Each call may raise.
\<close>

record ('g, 'a, 'i) libs =
  nibabel_load :: "string \<Rightarrow> error + nifti"
  nibabel_load_mask :: "string \<Rightarrow> error + mask_nifti"
  Scheme :: "string \<Rightarrow> fl \<Rightarrow> error + amico_scheme"
  TensorModel :: "fl list \<Rightarrow> fl list list \<Rightarrow> error + 'g"
  tensor_directions :: "'g \<Rightarrow> fl list \<Rightarrow> error + fl list"
  load_precomputed_rotation_matrices :: "int \<Rightarrow> error + 'a"
  aux_structures_generate :: "amico_scheme \<Rightarrow> int \<Rightarrow> error + ('i \<times> 'i)"
  elapsed :: fl

section \<open>\<^verbatim>\<open>Evaluation.__init__\<close>\<close>

definition init :: "string \<Rightarrow> string \<Rightarrow> ('k, 'p, 'a, 'i) evaluation" where
  "init study subj =
     \<lparr>niiDWI = None, niiDWI_img = None, scheme = None, niiMASK = None, niiMASK_img = None,
      model = None, KERNELS = None, RESULTS = None,
      CONFIG = \<lparr>study_path = study, subject = subj, DATA_path = pjoin study subj,
                peaks_filename = None, doNormalizeSignal = True, doMergeB0 = True,
                doComputeNRMSE = False, dwi_filename = None, scheme_filename = None,
                b0_thr = None, dim = None, pixdim = None, ATOMS_path = None,
                solver_params = None, lmax = None, fit_time = None\<rparr>\<rparr>"

section \<open>\<^verbatim>\<open>Evaluation.load_data\<close>\<close>

text \<open>
  The method mutates the object as it goes, so a raise leaves the assignments made before
  it: the result is the exception (if any) and the state at that point.
\<close>

definition rescale :: "nifti \<Rightarrow> fl array4 \<Rightarrow> fl array4" where
  "rescale nii img =
     (if isfinite (scl_slope nii) \<and> isfinite (scl_inter nii) \<and> scl_slope nii \<noteq> Fin 0
         \<and> (scl_slope nii \<noteq> Fin 1 \<or> scl_inter nii \<noteq> Fin 0)
      then img\<lparr>at4 := (\<lambda>v. map (\<lambda>a. f_add F32 (f_mul F32 a (scl_slope nii)) (scl_inter nii))
                              (at4 img v))\<rparr>
      else img)"

definition load_mask ::
  "('g, 'a, 'i) libs \<Rightarrow> string option \<Rightarrow> ('k, 'p, 'a, 'i) evaluation
     \<Rightarrow> error option \<times> ('k, 'p, 'a, 'i) evaluation" where
  "load_mask L mask_filename s =
     (case mask_filename of
        Some f \<Rightarrow>
          (case nibabel_load_mask L (pjoin (DATA_path (CONFIG s)) f) of
             Inl e \<Rightarrow> (Some e, s)
           | Inr m \<Rightarrow>
               let s1 = s\<lparr>niiMASK := Some m, niiMASK_img := Some (astype_uint8 (mask_data m))\<rparr>
               in if dim (CONFIG s1) \<noteq> Some (shape3 (astype_uint8 (mask_data m)))
                  then (Some (ValueError ''MASK geometry does not match with DWI data''), s1)
                  else (None, s1))
      | None \<Rightarrow>
          (case dim (CONFIG s) of
             None \<Rightarrow> (Some TypeError, s\<lparr>niiMASK := None\<rparr>)
           | Some d \<Rightarrow> (None, s\<lparr>niiMASK := None, niiMASK_img := Some (ones3 d)\<rparr>)))"

definition load_data ::
  "('g, 'a, 'i) libs \<Rightarrow> string \<Rightarrow> string \<Rightarrow> string option \<Rightarrow> fl
     \<Rightarrow> ('k, 'p, 'a, 'i) evaluation \<Rightarrow> error option \<times> ('k, 'p, 'a, 'i) evaluation" where
  "load_data L dwi_file scheme_file mask_filename thr s =
     (let s1 = s\<lparr>CONFIG := (CONFIG s)\<lparr>dwi_filename := Some dwi_file\<rparr>\<rparr>
      in case nibabel_load L (pjoin (DATA_path (CONFIG s1)) dwi_file) of
           Inl e \<Rightarrow> (Some e, s1)
         | Inr nii \<Rightarrow>
             let img = astype_f32 (nii_data nii);
                 s2 = s1\<lparr>niiDWI := Some nii, niiDWI_img := Some (rescale nii img),
                         CONFIG := (CONFIG s1)\<lparr>dim := Some (shape4 img), pixdim := Some (zooms nii),
                                                scheme_filename := Some scheme_file,
                                                b0_thr := Some thr\<rparr>\<rparr>
             in case Scheme L (pjoin (DATA_path (CONFIG s2)) scheme_file) thr of
                  Inl e \<Rightarrow> (Some e, s2)
                | Inr sch \<Rightarrow>
                    let s3 = s2\<lparr>scheme := Some sch\<rparr>
                    in if nS sch \<noteq> len4 (rescale nii img)
                       then (Some (ValueError ''Scheme does not match with DWI data''), s3)
                       else load_mask L mask_filename s3)"

section \<open>\<^verbatim>\<open>Evaluation.fit\<close>\<close>

subsection \<open>Preparing the signal of a voxel (lines 291 to 299)\<close>

definition clamp_negative :: "fl list \<Rightarrow> fl list" where
  "clamp_negative y = map (\<lambda>a. if f_lt a (Fin 0) then Fin 0 else a) y"

text \<open>
  Lines 294 to 296: the mean of the b0 samples and, when merging is on and the scheme
  counts a b0 sample, the assignment of that scalar to every b0 index.
\<close>

definition b0_merging :: "'p config \<Rightarrow> amico_scheme \<Rightarrow> fl list \<Rightarrow> error + (fl \<times> fl list)" where
  "b0_merging cfg sch y =
     (case take_idx y (b0_idx sch) of
        Inl e \<Rightarrow> Inl e
      | Inr ys \<Rightarrow>
          let b0 = np_mean ys
          in Inr (b0, if doMergeB0 cfg \<and> 0 < b0_count sch then put_idx y (b0_idx sch) b0 else y))"

text \<open>Lines 298 and 299; the literal \<^verbatim>\<open>1e-3\<close> is the double nearest to \<open>1/1000\<close>.\<close>

definition normalize_signal :: "'p config \<Rightarrow> fl \<Rightarrow> fl list \<Rightarrow> fl list" where
  "normalize_signal cfg b0 y =
     (if doNormalizeSignal cfg \<and> f_lt (rnd F64 (1 / 1000)) b0
      then map (\<lambda>a. f_div F64 a b0) y else y)"

definition prepare_signal :: "'p config \<Rightarrow> amico_scheme \<Rightarrow> fl list \<Rightarrow> error + fl list" where
  "prepare_signal cfg sch row =
     (case b0_merging cfg sch (clamp_negative row) of
        Inl e \<Rightarrow> Inl e
      | Inr (b0, y) \<Rightarrow> Inr (normalize_signal cfg b0 y))"

subsection \<open>The fitting error (lines 313 and 314)\<close>

definition sum_squares :: "fl list \<Rightarrow> fl" where
  "sum_squares y = np_sum (map (\<lambda>a. f_mul F64 a a) y)"

definition compute_nrmse :: "fl list \<Rightarrow> fl list \<Rightarrow> error + fl" where
  "compute_nrmse y y_est =
     (let den = sum_squares y
      in if f_lt (rnd F64 (1 / 10 ^ 16)) den
         then (case np_subtract y y_est of
                 Inl e \<Rightarrow> Inl e
               | Inr d \<Rightarrow> Inr (f_sqrt F64 (f_div F64 (sum_squares d) den)))
         else Inr (Fin 0))"

subsection \<open>One voxel of the loop (lines 290 to 316)\<close>

text \<open>The local variables of \<^verbatim>\<open>fit\<close> that the loop updates.\<close>

record fit_vars =
  DIRs :: "fl array4"
  MAPs :: "fl array4"
  NRMSE :: "fl array3 option"
  progress :: nat

text \<open>\<^verbatim>\<open>dirs.reshape(-1,3)\<close>.\<close>

fun rows3 :: "'a list \<Rightarrow> 'a list list" where
  "rows3 (x # y # z # r) = [x, y, z] # rows3 r"
| "rows3 r = []"

definition reshape3 :: "'a list \<Rightarrow> error + 'a list list" where
  "reshape3 d = (if length d mod 3 = 0 then Inr (rows3 d)
                 else Inl (ValueError ''cannot reshape array''))"

definition voxel_signal :: "('k, 'p, 'a, 'i) evaluation \<Rightarrow> voxel \<Rightarrow> error + fl list" where
  "voxel_signal s v =
     (case niiDWI_img s of
        None \<Rightarrow> Inl TypeError
      | Some img \<Rightarrow>
          (case get_row img v of
             Inl e \<Rightarrow> Inl e
           | Inr row \<Rightarrow>
               (case scheme s of
                  None \<Rightarrow> Inl AttributeError
                | Some sch \<Rightarrow> prepare_signal (CONFIG s) sch row)))"

definition voxel_dirs ::
  "('g, 'a, 'i) libs \<Rightarrow> ('k, 'p, 'a, 'i) evaluation \<Rightarrow> 'g option \<Rightarrow> fit_vars \<Rightarrow> voxel
     \<Rightarrow> fl list \<Rightarrow> error + fl list" where
  "voxel_dirs L s DTI vars v y =
     (case peaks_filename (CONFIG s) of
        None \<Rightarrow> (case DTI of None \<Rightarrow> Inl NameError | Some g \<Rightarrow> tensor_directions L g y)
      | Some f \<Rightarrow> get_row (DIRs vars) v)"

definition store_nrmse ::
  "('k, 'p, 'a, 'i) evaluation \<Rightarrow> fit_vars \<Rightarrow> voxel \<Rightarrow> fl list \<Rightarrow> fl list
     \<Rightarrow> error + fl array3 option" where
  "store_nrmse s vars v y y_est =
     (if doComputeNRMSE (CONFIG s)
      then (case NRMSE vars of
              None \<Rightarrow> Inl NameError
            | Some E \<Rightarrow>
                (case compute_nrmse y y_est of
                   Inl e \<Rightarrow> Inl e
                 | Inr x \<Rightarrow>
                     (case set_elem E v x of Inl e \<Rightarrow> Inl e | Inr E' \<Rightarrow> Inr (Some E'))))
      else Inr (NRMSE vars))"

definition voxel_fit ::
  "('g, 'a, 'i) libs \<Rightarrow> ('k, 'p, 'a, 'i) evaluation \<Rightarrow> ('k, 'p, 'a, 'i) amico_model
     \<Rightarrow> 'k kernels \<Rightarrow> 'g option \<Rightarrow> nat list option \<Rightarrow> voxel \<Rightarrow> fit_vars \<Rightarrow> error + fit_vars" where
  "voxel_fit L s M K DTI idx_to_keep v vars =
     (case voxel_signal s v of
        Inl e \<Rightarrow> Inl e
      | Inr y \<Rightarrow>
     (case voxel_dirs L s DTI vars v y of
        Inl e \<Rightarrow> Inl e
      | Inr dirs \<Rightarrow>
     (case reshape3 dirs of
        Inl e \<Rightarrow> Inl e
      | Inr dirs3 \<Rightarrow>
     (case model_fit M y dirs3 K idx_to_keep (solver_params (CONFIG s)) of
        Inl e \<Rightarrow> Inl e
      | Inr (y_est, dirs_mod, row) \<Rightarrow>
     (case set_row (MAPs vars) v row of
        Inl e \<Rightarrow> Inl e
      | Inr MAPs' \<Rightarrow>
     (case set_row (DIRs vars) v dirs_mod of
        Inl e \<Rightarrow> Inl e
      | Inr DIRs' \<Rightarrow>
     (case store_nrmse s vars v y y_est of
        Inl e \<Rightarrow> Inl e
      | Inr NRMSE' \<Rightarrow>
          Inr (vars\<lparr>DIRs := DIRs', MAPs := MAPs', NRMSE := NRMSE',
                    progress := progress vars + 1\<rparr>))))))))"

subsection \<open>The loop and the method\<close>

fun fit_loop ::
  "('g, 'a, 'i) libs \<Rightarrow> ('k, 'p, 'a, 'i) evaluation \<Rightarrow> ('k, 'p, 'a, 'i) amico_model
     \<Rightarrow> 'k kernels \<Rightarrow> 'g option \<Rightarrow> nat list option \<Rightarrow> 8 word array3 \<Rightarrow> voxel list
     \<Rightarrow> fit_vars \<Rightarrow> error + fit_vars" where
  "fit_loop L s M K DTI idx_to_keep msk [] vars = Inr vars"
| "fit_loop L s M K DTI idx_to_keep msk (v # vs) vars =
     (if at3 msk v = 0 then fit_loop L s M K DTI idx_to_keep msk vs vars
      else case voxel_fit L s M K DTI idx_to_keep v vars of
             Inl e \<Rightarrow> Inl e
           | Inr vars' \<Rightarrow> fit_loop L s M K DTI idx_to_keep msk vs vars')"

text \<open>Lines 255 to 268: the direction volume and, without peaks, the tensor model.\<close>

definition setup_directions ::
  "('g, 'a, 'i) libs \<Rightarrow> ('k, 'p, 'a, 'i) evaluation \<Rightarrow> error + (fl array4 \<times> 'g option)" where
  "setup_directions L s =
     (case peaks_filename (CONFIG s) of
        None \<Rightarrow>
          (case dim (CONFIG s) of
             None \<Rightarrow> Inl TypeError
           | Some d \<Rightarrow>
               (case scheme s of
                  None \<Rightarrow> Inl AttributeError
                | Some sch \<Rightarrow>
                    (case TensorModel L (b sch) (map (take 3) (raw sch)) of
                       Inl e \<Rightarrow> Inl e
                     | Inr g \<Rightarrow> Inr (zeros4 d 3, Some g))))
      | Some f \<Rightarrow>
          (case nibabel_load L (pjoin (DATA_path (CONFIG s)) f) of
             Inl e \<Rightarrow> Inl e
           | Inr nii \<Rightarrow>
               (case niiMASK_img s of
                  None \<Rightarrow> Inl AttributeError
                | Some msk \<Rightarrow>
                    if shape4 (astype_f32 (nii_data nii)) \<noteq> shape3 msk
                    then Inl (ValueError ''PEAKS geometry does not match with DWI data'')
                    else Inr (astype_f32 (nii_data nii), None))))"

text \<open>Lines 270 to 278: the other outputs and the indices of the samples to keep.\<close>

definition setup_outputs ::
  "('k, 'p, 'a, 'i) evaluation \<Rightarrow> ('k, 'p, 'a, 'i) amico_model
     \<Rightarrow> error + (fl array4 \<times> fl array3 option \<times> nat list option)" where
  "setup_outputs s M =
     (case dim (CONFIG s) of
        None \<Rightarrow> Inl TypeError
      | Some d \<Rightarrow>
          let maps = zeros4 d (length (OUTPUT_names M));
              nrmse = (if doComputeNRMSE (CONFIG s) then Some (zeros3 d) else None)
          in if doMergeB0 (CONFIG s)
             then (case scheme s of
                     None \<Rightarrow> Inl AttributeError
                   | Some sch \<Rightarrow>
                       if 0 < b0_count sch
                       then (case b0_idx sch of
                               [] \<Rightarrow> Inl IndexError
                             | i # r \<Rightarrow> Inr (maps, nrmse, Some (dwi_idx sch @ [i])))
                       else Inr (maps, nrmse, None))
             else Inr (maps, nrmse, None))"

definition fit_body ::
  "('g, 'a, 'i) libs \<Rightarrow> ('k, 'p, 'a, 'i) evaluation \<Rightarrow> ('k, 'p, 'a, 'i) amico_model
     \<Rightarrow> 'k kernels \<Rightarrow> error + fit_vars" where
  "fit_body L s M K =
     (case setup_directions L s of
        Inl e \<Rightarrow> Inl e
      | Inr (dirs, DTI) \<Rightarrow>
          (case setup_outputs s M of
             Inl e \<Rightarrow> Inl e
           | Inr (maps, nrmse, idx_to_keep) \<Rightarrow>
               (case niiMASK_img s of
                  None \<Rightarrow> Inl AttributeError
                | Some msk \<Rightarrow>
                    fit_loop L s M K DTI idx_to_keep msk (voxels (shape3 msk))
                      \<lparr>DIRs = dirs, MAPs = maps, NRMSE = nrmse, progress = 0\<rparr>)))"

definition fit ::
  "('g, 'a, 'i) libs \<Rightarrow> ('k, 'p, 'a, 'i) evaluation
     \<Rightarrow> error option \<times> ('k, 'p, 'a, 'i) evaluation" where
  \<open>fit L s =
     (case niiDWI s of
        None \<Rightarrow> (Some (RuntimeError ''Data not loaded; call "load_data()" first.''), s)
      | Some nii \<Rightarrow>
     (case model s of
        None \<Rightarrow> (Some (RuntimeError ''Model not set; call "set_model()" first.''), s)
      | Some M \<Rightarrow>
     (case KERNELS s of
        None \<Rightarrow> (Some (RuntimeError
          ''Response functions not generated; call "generate_kernels()" and "load_kernels()" first.''), s)
      | Some K \<Rightarrow>
          if kmodel K \<noteq> model_id M
          then (Some (RuntimeError ''Response functions were not created with the same model.''), s)
          else let s1 = s\<lparr>CONFIG := (CONFIG s)\<lparr>fit_time := None\<rparr>\<rparr>
               in case fit_body L s1 M K of
                    Inl e \<Rightarrow> (Some e, s1)
                  | Inr vars \<Rightarrow>
                      (None, s1\<lparr>CONFIG := (CONFIG s1)\<lparr>fit_time := Some (elapsed L)\<rparr>,
                                RESULTS := Some \<lparr>res_DIRs = DIRs vars, res_MAPs = MAPs vars,
                                                 res_NRMSE = NRMSE vars\<rparr>\<rparr>))))\<close>

section \<open>\<^verbatim>\<open>Evaluation.generate_kernels\<close> and the atom directory\<close>

text \<open>
  The file system, as far as the method sees it: a directory path is mapped to its
  entries in listing order. \<^verbatim>\<open>glob\<close> with the pattern \<^verbatim>\<open>A_*.npy\<close> matches the names that
  begin with \<^verbatim>\<open>A_\<close> and end with \<^verbatim>\<open>.npy\<close>; with the pattern \<^verbatim>\<open>*\<close> it matches every name
  that does not begin with a dot. \<^verbatim>\<open>os.remove\<close> deletes a regular file and raises on a
  directory.
\<close>

definition is_atom_name :: "string \<Rightarrow> bool" where
  "is_atom_name n = (6 \<le> length n \<and> take 2 n = ''A_'' \<and> drop (length n - 4) n = ''.npy'')"

definition is_visible :: "string \<Rightarrow> bool" where
  "is_visible n = (n \<noteq> [] \<and> hd n \<noteq> CHR ''.'')"

definition glob :: "fs \<Rightarrow> string \<Rightarrow> (string \<Rightarrow> bool) \<Rightarrow> string list" where
  "glob files d pat = (case files d of None \<Rightarrow> [] | Some es \<Rightarrow> filter pat (map fst es))"

definition exists :: "fs \<Rightarrow> string \<Rightarrow> bool" where
  "exists files d = (files d \<noteq> None)"

definition makedirs :: "fs \<Rightarrow> string \<Rightarrow> fs" where
  "makedirs files d = files(d \<mapsto> [])"

definition remove :: "fs \<Rightarrow> string \<Rightarrow> string \<Rightarrow> error + fs" where
  "remove files d n =
     (case files d of
        None \<Rightarrow> Inl OSError
      | Some es \<Rightarrow>
          (case map_of es n of
             Some (RegularFile c) \<Rightarrow> Inr (files(d \<mapsto> filter (\<lambda>e. fst e \<noteq> n) es))
           | Some Directory \<Rightarrow> Inl OSError
           | None \<Rightarrow> Inl OSError))"

fun remove_each :: "fs \<Rightarrow> string \<Rightarrow> string list \<Rightarrow> error option \<times> fs" where
  "remove_each files d [] = (None, files)"
| "remove_each files d (n # ns) =
     (case remove files d n of
        Inl e \<Rightarrow> (Some e, files)
      | Inr files' \<Rightarrow> remove_each files' d ns)"

text \<open>
  The model's \<^verbatim>\<open>generate\<close> writes the atoms; it is given the file system and returns it
  with what it wrote, and the exception if it raised.
\<close>

definition generate_kernels ::
  "('g, 'a, 'i) libs \<Rightarrow> bool \<Rightarrow> int \<Rightarrow> fs \<Rightarrow> ('k, 'p, 'a, 'i) evaluation
     \<Rightarrow> error option \<times> fs \<times> ('k, 'p, 'a, 'i) evaluation" where
  \<open>generate_kernels L regenerate lmax_arg files s =
     (case scheme s of
        None \<Rightarrow> (Some (RuntimeError ''Scheme not loaded; call "load_data()" first.''), files, s)
      | Some sch \<Rightarrow>
     (case model s of
        None \<Rightarrow> (Some (RuntimeError ''Model not set; call "set_model()" method first.''), files, s)
      | Some M \<Rightarrow>
          let M1 = M\<lparr>model_scheme := Some sch\<rparr>;
              s1 = s\<lparr>CONFIG := (CONFIG s)\<lparr>lmax := Some lmax_arg\<rparr>, model := Some M1\<rparr>
          in case ATOMS_path (CONFIG s1) of
               None \<Rightarrow> (Some AttributeError, files, s1)
             | Some d \<Rightarrow>
                 if 0 < length (glob files d is_atom_name) \<and> \<not> regenerate
                 then (None, files, s1)
                 else
                   (case (if \<not> exists files d then (None, makedirs files d)
                          else remove_each files d (glob files d is_visible)) of
                      (Some e, files1) \<Rightarrow> (Some e, files1, s1)
                    | (None, files1) \<Rightarrow>
                        (case load_precomputed_rotation_matrices L lmax_arg of
                           Inl e \<Rightarrow> (Some e, files1, s1)
                         | Inr aux \<Rightarrow>
                             (case aux_structures_generate L sch lmax_arg of
                                Inl e \<Rightarrow> (Some e, files1, s1)
                              | Inr (idx_IN, idx_OUT) \<Rightarrow>
                                  (case model_generate M1 (model_scheme M1) d aux idx_IN idx_OUT files1 of
                                     (err, files2) \<Rightarrow> (err, files2, s1)))))))\<close>

section \<open>Vocabulary for the properties of the loop\<close>

text \<open>
  Two sets of loop variables have the same layout when their arrays have the same shapes;
  the slot of a voxel is what the three output arrays hold for it.
\<close>

definition same_layout :: "fit_vars \<Rightarrow> fit_vars \<Rightarrow> bool" where
  "same_layout a c =
     (shape4 (DIRs a) = shape4 (DIRs c) \<and> len4 (DIRs a) = len4 (DIRs c)
      \<and> shape4 (MAPs a) = shape4 (MAPs c) \<and> len4 (MAPs a) = len4 (MAPs c)
      \<and> map_option shape3 (NRMSE a) = map_option shape3 (NRMSE c))"

definition slot :: "fit_vars \<Rightarrow> voxel \<Rightarrow> fl list \<times> fl list \<times> fl option" where
  "slot a v = (at4 (DIRs a) v, at4 (MAPs a) v, map_option (\<lambda>E. at3 E v) (NRMSE a))"

section \<open>A small evaluation\<close>

text \<open>
  Two voxels along \<open>x\<close> with two samples each (one b0 and one diffusion-weighted sample),
  the second voxel masked out; a model with one output channel whose \<^verbatim>\<open>fit\<close> returns the
  signal, the directions it was given and the first sample; a tensor fit that always
  answers the direction \<open>(1, 0, 0)\<close>; a peaks file holding the direction \<open>(0, 1, 0)\<close> in
  every voxel.
\<close>

definition ex_scheme :: amico_scheme where
  "ex_scheme = \<lparr>nS = 2, b = [Fin 0, Fin 1000], raw = [[Fin 0, Fin 0, Fin 0, Fin 0],
                 [Fin 1, Fin 0, Fin 0, Fin 1000]], shells = [(Fin 1000, [1])],
                 b0_idx = [0], b0_count = 1, dwi_idx = [1]\<rparr>"

definition ex_dwi :: nifti where
  "ex_dwi = \<lparr>nii_data = \<lparr>shape4 = (2, 1, 1), len4 = 2,
                          at4 = (\<lambda>v. if v = (0, 0, 0) then [Fin 2, Fin 1] else [Fin 4, Fin (- 1)])\<rparr>,
             scl_slope = Fin 1, scl_inter = Fin 0, zooms = (Fin 2, Fin 2, Fin 2)\<rparr>"

definition ex_peaks :: nifti where
  "ex_peaks = \<lparr>nii_data = \<lparr>shape4 = (2, 1, 1), len4 = 3, at4 = (\<lambda>v. [Fin 0, Fin 1, Fin 0])\<rparr>,
               scl_slope = Fin 1, scl_inter = Fin 0, zooms = (Fin 2, Fin 2, Fin 2)\<rparr>"

definition ex_mask :: mask_nifti where
  "ex_mask = \<lparr>mask_data = \<lparr>shape3 = (2, 1, 1), at3 = (\<lambda>v. if v = (0, 0, 0) then 1 else 0)\<rparr>,
              mask_zooms = (Fin 2, Fin 2, Fin 2)\<rparr>"

definition ex_libs :: "(unit, unit, unit) libs" where
  "ex_libs =
     \<lparr>nibabel_load = (\<lambda>p. if p = ''study/subj/DWI.nii'' then Inr ex_dwi
                           else if p = ''study/subj/peaks.nii'' then Inr ex_peaks
                           else Inl (External ''No such file'')),
      nibabel_load_mask = (\<lambda>p. if p = ''study/subj/mask.nii'' then Inr ex_mask
                                else Inl (External ''No such file'')),
      Scheme = (\<lambda>p thr. if p = ''study/subj/DWI.scheme'' then Inr ex_scheme
                         else Inl (External ''No such file'')),
      TensorModel = (\<lambda>bvals bvecs. Inr ()),
      tensor_directions = (\<lambda>g y. Inr [Fin 1, Fin 0, Fin 0]),
      load_precomputed_rotation_matrices = (\<lambda>l. Inr ()),
      aux_structures_generate = (\<lambda>sch l. Inr ((), ())),
      elapsed = Fin 1\<rparr>"

definition ex_model :: "(unit, unit, unit, unit) amico_model" where
  "ex_model =
     \<lparr>model_id = ''Example'', model_name = ''Example model'', OUTPUT_names = [''first''],
      OUTPUT_descriptions = [''First sample''], model_scheme = None,
      model_fit = (\<lambda>y dirs K idx p. Inr (y, concat dirs, [hd y])),
      model_generate = (\<lambda>sch d aux idx_IN idx_OUT files.
         (None, files(d \<mapsto> (''A_001.npy'', RegularFile ''new'') # the (files d))))\<rparr>"

definition ex_kernels :: "unit kernels" where
  "ex_kernels = \<lparr>kmodel = ''Example'', kdata = ()\<rparr>"

text \<open>The state after \<^verbatim>\<open>load_data\<close> with the mask, \<^verbatim>\<open>set_model\<close> and \<^verbatim>\<open>load_kernels\<close>.\<close>

definition ex_state :: "(unit, unit, unit, unit) evaluation" where
  "ex_state =
     (snd (load_data ex_libs ''DWI.nii'' ''DWI.scheme'' (Some ''mask.nii'') (Fin 0)
             (init ''study'' ''subj'')))
       \<lparr>model := Some ex_model, KERNELS := Some ex_kernels\<rparr>"

text \<open>
  The same without mask file, with the fitting error switched on; and with the mask, the
  fitting error and the peaks file.
\<close>

definition ex_state_full :: "(unit, unit, unit, unit) evaluation" where
  "ex_state_full =
     (let s = snd (load_data ex_libs ''DWI.nii'' ''DWI.scheme'' None (Fin 0)
                     (init ''study'' ''subj''))
      in s\<lparr>model := Some ex_model, KERNELS := Some ex_kernels,
            CONFIG := (CONFIG s)\<lparr>doComputeNRMSE := True\<rparr>\<rparr>)"

definition ex_state_peaks :: "(unit, unit, unit, unit) evaluation" where
  "ex_state_peaks =
     ex_state\<lparr>CONFIG := (CONFIG ex_state)\<lparr>peaks_filename := Some ''peaks.nii'',
                                            doComputeNRMSE := True\<rparr>\<rparr>"

text \<open>The loop variables before and after the loop over both voxels.\<close>

definition ex_full_init :: fit_vars where
  "ex_full_init = \<lparr>DIRs = zeros4 (2, 1, 1) 3, MAPs = zeros4 (2, 1, 1) 1,
                    NRMSE = Some (zeros3 (2, 1, 1)), progress = 0\<rparr>"

definition ex_full_vars :: fit_vars where
  "ex_full_vars =
     \<lparr>DIRs = \<lparr>shape4 = (2, 1, 1), len4 = 3,
              at4 = (\<lambda>v. if v = (0, 0, 0) \<or> v = (1, 0, 0) then [Fin 1, Fin 0, Fin 0]
                         else [Fin 0, Fin 0, Fin 0])\<rparr>,
      MAPs = \<lparr>shape4 = (2, 1, 1), len4 = 1,
              at4 = (\<lambda>v. if v = (0, 0, 0) \<or> v = (1, 0, 0) then [Fin 1] else [Fin 0])\<rparr>,
      NRMSE = Some \<lparr>shape3 = (2, 1, 1), at3 = (\<lambda>v. Fin 0)\<rparr>, progress = 2\<rparr>"

text \<open>
  A second evaluation that agrees with the previous one at the first voxel only: the
  second voxel has other samples and is masked out.
\<close>

definition ex_img2 :: "fl array4" where
  "ex_img2 = \<lparr>shape4 = (2, 1, 1), len4 = 2,
               at4 = (\<lambda>v. if v = (0, 0, 0) then [Fin 2, Fin 1] else [Fin 7, Fin 7])\<rparr>"

definition ex_msk2 :: "8 word array3" where
  "ex_msk2 = \<lparr>shape3 = (2, 1, 1), at3 = (\<lambda>v. if v = (0, 0, 0) then 1 else 0)\<rparr>"

text \<open>
  A scheme of seven b0 samples, and a voxel whose clamped samples are six zeros and a one.
\<close>

definition ex_scheme7 :: amico_scheme where
  "ex_scheme7 = \<lparr>nS = 7, b = replicate 7 (Fin 0), raw = replicate 7 [Fin 0, Fin 0, Fin 0, Fin 0],
                  shells = [], b0_idx = [0, 1, 2, 3, 4, 5, 6], b0_count = 7, dwi_idx = []\<rparr>"

definition ex_y7 :: "fl list" where
  "ex_y7 = [Fin 0, Fin 0, Fin 0, Fin 0, Fin 0, Fin 0, Fin 1]"

text \<open>
  An atom directory holding an atom of an earlier run and a hidden file, and the
  evaluation with its atom path set as \<^verbatim>\<open>set_model\<close> sets it.
\<close>

definition ex_files :: fs where
  "ex_files = [''study/kernels/Example'' \<mapsto>
                 [(''A_001.npy'', RegularFile ''old''), (''.hidden'', RegularFile ''old'')]]"

definition ex_state_atoms :: "(unit, unit, unit, unit) evaluation" where
  "ex_state_atoms =
     ex_state\<lparr>CONFIG := (CONFIG ex_state)\<lparr>ATOMS_path := Some ''study/kernels/Example''\<rparr>\<rparr>"

section \<open>Properties\<close>

subsection \<open>The preconditions of \<^verbatim>\<open>fit\<close>\<close>

text \<open>
  Claim C2. \<^verbatim>\<open>fit\<close> raises a \<^verbatim>\<open>RuntimeError\<close> before it touches anything when the
  signal is not loaded, the model is not set, no kernels are present, or the kernels carry
  another model's id. The checks run in this order; the first three messages name the
  method to call (\<^verbatim>\<open>load_data()\<close>, \<^verbatim>\<open>set_model()\<close>, \<^verbatim>\<open>generate_kernels()\<close> and
  \<^verbatim>\<open>load_kernels()\<close>), the fourth says that the response functions belong to another
  model. In each case the object is returned as it was: no configuration entry changes and
  \<^verbatim>\<open>RESULTS\<close> is not written.
\<close>

theorem fit_preconditions:
  fixes s :: "('k, 'p, 'a, 'i) evaluation" and L :: "('g, 'a, 'i) libs"
  shows \<open>(niiDWI s = None \<longrightarrow>
            fit L s = (Some (RuntimeError ''Data not loaded; call "load_data()" first.''), s))
       \<and> (niiDWI s \<noteq> None \<and> model s = None \<longrightarrow>
            fit L s = (Some (RuntimeError ''Model not set; call "set_model()" first.''), s))
       \<and> (niiDWI s \<noteq> None \<and> model s \<noteq> None \<and> KERNELS s = None \<longrightarrow>
            fit L s = (Some (RuntimeError
              ''Response functions not generated; call "generate_kernels()" and "load_kernels()" first.''), s))
       \<and> (\<forall>M K. niiDWI s \<noteq> None \<and> model s = Some M \<and> KERNELS s = Some K
                  \<and> kmodel K \<noteq> model_id M \<longrightarrow>
            fit L s = (Some (RuntimeError ''Response functions were not created with the same model.''), s))
       \<and> (niiDWI s = None \<or> model s = None \<or> KERNELS s = None
            \<or> (\<exists>M K. model s = Some M \<and> KERNELS s = Some K \<and> kmodel K \<noteq> model_id M) \<longrightarrow>
            (\<exists>msg. fst (fit L s) = Some (RuntimeError msg)) \<and> snd (fit L s) = s
            \<and> RESULTS (snd (fit L s)) = RESULTS s)\<close>
  by (auto simp: fit_def split: option.splits)

theorem fit_preconditions_witness:
  \<open>fit ex_libs (init ''study'' ''subj'' :: (unit, unit, unit, unit) evaluation)
      = (Some (RuntimeError ''Data not loaded; call "load_data()" first.''), init ''study'' ''subj'')
   \<and> fit ex_libs ((init ''study'' ''subj'' :: (unit, unit, unit, unit) evaluation)\<lparr>niiDWI := Some ex_dwi\<rparr>)
      = (Some (RuntimeError ''Model not set; call "set_model()" first.''),
         (init ''study'' ''subj'')\<lparr>niiDWI := Some ex_dwi\<rparr>)
   \<and> fit ex_libs (ex_state\<lparr>KERNELS := None\<rparr>)
      = (Some (RuntimeError
          ''Response functions not generated; call "generate_kernels()" and "load_kernels()" first.''),
         ex_state\<lparr>KERNELS := None\<rparr>)
   \<and> fit ex_libs (ex_state\<lparr>KERNELS := Some \<lparr>kmodel = ''Other'', kdata = ()\<rparr>\<rparr>)
      = (Some (RuntimeError ''Response functions were not created with the same model.''),
         ex_state\<lparr>KERNELS := Some \<lparr>kmodel = ''Other'', kdata = ()\<rparr>\<rparr>)\<close>
proof -
  have ld: "niiDWI ex_state = Some ex_dwi"
    by (simp add: ex_state_def load_data_def load_mask_def init_def pjoin_def ex_libs_def Let_def
          split: if_splits)
  have md: "model ex_state = Some ex_model" by (simp add: ex_state_def)
  have mid: "model_id ex_model = ''Example''" by (simp add: ex_model_def)
  show ?thesis
    using fit_preconditions [of "init ''study'' ''subj'' :: (unit, unit, unit, unit) evaluation" ex_libs]
      fit_preconditions [of "(init ''study'' ''subj'' :: (unit, unit, unit, unit) evaluation)\<lparr>niiDWI := Some ex_dwi\<rparr>" ex_libs]
      fit_preconditions [of "ex_state\<lparr>KERNELS := None\<rparr>" ex_libs]
      fit_preconditions [of "ex_state\<lparr>KERNELS := Some \<lparr>kmodel = ''Other'', kdata = ()\<rparr>\<rparr>" ex_libs]
    by (simp add: ld md mid init_def)
qed

subsection \<open>One voxel writes one slot\<close>

lemma set_row_frame:
  "set_row A v row = Inr A' \<Longrightarrow>
     shape4 A' = shape4 A \<and> len4 A' = len4 A \<and> (\<forall>w. w \<noteq> v \<longrightarrow> at4 A' w = at4 A w)"
  by (auto simp: set_row_def split: if_splits sum.splits)

lemma set_elem_frame:
  "set_elem E v x = Inr E' \<Longrightarrow> shape3 E' = shape3 E \<and> (\<forall>w. w \<noteq> v \<longrightarrow> at3 E' w = at3 E w)"
  by (auto simp: set_elem_def split: if_splits)

lemma store_nrmse_frame:
  "store_nrmse s a v y y_est = Inr N \<Longrightarrow>
     map_option shape3 N = map_option shape3 (NRMSE a)
     \<and> (\<forall>w. w \<noteq> v \<longrightarrow> map_option (\<lambda>E. at3 E w) N = map_option (\<lambda>E. at3 E w) (NRMSE a))"
  by (auto simp: store_nrmse_def dest!: set_elem_frame split: if_splits option.splits sum.splits)

lemma voxel_fit_frame:
  assumes "voxel_fit L s M K DTI idx v a = Inr a'"
  shows "same_layout a a' \<and> (\<forall>w. w \<noteq> v \<longrightarrow> slot a' w = slot a w) \<and> progress a' = progress a + 1"
  using assms
  by (auto simp: voxel_fit_def same_layout_def slot_def
           dest!: set_row_frame store_nrmse_frame split: sum.splits prod.splits)

lemma set_row_local:
  assumes "set_row A v row = Inr A'" "shape4 B = shape4 A" "len4 B = len4 A"
  shows "\<exists>B'. set_row B v row = Inr B' \<and> at4 B' v = at4 A' v"
  using assms by (auto simp: set_row_def split: if_splits sum.splits)

lemma store_nrmse_local:
  assumes "store_nrmse s a v y y_est = Inr N" "map_option shape3 (NRMSE c) = map_option shape3 (NRMSE a)"
    "map_option (\<lambda>E. at3 E v) (NRMSE c) = map_option (\<lambda>E. at3 E v) (NRMSE a)"
  shows "\<exists>N'. store_nrmse s c v y y_est = Inr N'
           \<and> map_option (\<lambda>E. at3 E v) N' = map_option (\<lambda>E. at3 E v) N"
  using assms
  by (auto simp: store_nrmse_def set_elem_def split: if_splits option.splits sum.splits)

lemma voxel_dirs_local:
  assumes "shape4 (DIRs c) = shape4 (DIRs a)" "at4 (DIRs c) v = at4 (DIRs a) v"
  shows "voxel_dirs L s DTI c v y = voxel_dirs L s DTI a v y"
  using assms by (auto simp: voxel_dirs_def get_row_def split: option.splits)

lemma voxel_fit_local:
  assumes "voxel_fit L s M K DTI idx v a = Inr a'"
    and "same_layout a c" and "slot c v = slot a v"
  shows "\<exists>c'. voxel_fit L s M K DTI idx v c = Inr c' \<and> slot c' v = slot a' v"
proof -
  from assms(1) obtain y dirs dirs3 y_est dirs_mod row MAPs' DIRs' N where
    a1: "voxel_signal s v = Inr y" and a2: "voxel_dirs L s DTI a v y = Inr dirs"
    and a3: "reshape3 dirs = Inr dirs3"
    and a4: "model_fit M y dirs3 K idx (solver_params (CONFIG s)) = Inr (y_est, dirs_mod, row)"
    and a5: "set_row (MAPs a) v row = Inr MAPs'" and a6: "set_row (DIRs a) v dirs_mod = Inr DIRs'"
    and a7: "store_nrmse s a v y y_est = Inr N"
    and a8: "a' = a\<lparr>DIRs := DIRs', MAPs := MAPs', NRMSE := N, progress := progress a + 1\<rparr>"
    by (auto simp: voxel_fit_def split: sum.splits prod.splits)
  from assms(2) have lay: "shape4 (DIRs c) = shape4 (DIRs a)" "len4 (DIRs c) = len4 (DIRs a)"
    "shape4 (MAPs c) = shape4 (MAPs a)" "len4 (MAPs c) = len4 (MAPs a)"
    "map_option shape3 (NRMSE c) = map_option shape3 (NRMSE a)"
    by (simp_all add: same_layout_def)
  have c2: "voxel_dirs L s DTI c v y = Inr dirs"
    using a2 voxel_dirs_local [OF lay(1), of v L s DTI y] assms(3) by (simp add: slot_def)
  obtain Mc where c5: "set_row (MAPs c) v row = Inr Mc" "at4 Mc v = at4 MAPs' v"
    using set_row_local [OF a5 lay(3) lay(4)] by blast
  obtain Dc where c6: "set_row (DIRs c) v dirs_mod = Inr Dc" "at4 Dc v = at4 DIRs' v"
    using set_row_local [OF a6 lay(1) lay(2)] by blast
  obtain Nc where c7: "store_nrmse s c v y y_est = Inr Nc"
    "map_option (\<lambda>E. at3 E v) Nc = map_option (\<lambda>E. at3 E v) N"
    using store_nrmse_local [OF a7 lay(5)] assms(3) by (auto simp: slot_def)
  have "voxel_fit L s M K DTI idx v c
          = Inr (c\<lparr>DIRs := Dc, MAPs := Mc, NRMSE := Nc, progress := progress c + 1\<rparr>)"
    by (simp add: voxel_fit_def a1 c2 a3 a4 c5 c6 c7)
  moreover have "slot (c\<lparr>DIRs := Dc, MAPs := Mc, NRMSE := Nc, progress := progress c + 1\<rparr>) v
                   = slot a' v"
    by (simp add: slot_def a8 c5 c6 c7)
  ultimately show ?thesis by blast
qed


lemma same_layout_refl: "same_layout a a"
  by (simp add: same_layout_def)

lemma same_layout_sym: "same_layout a c \<Longrightarrow> same_layout c a"
  by (simp add: same_layout_def)

lemma same_layout_trans: "same_layout a c \<Longrightarrow> same_layout c d \<Longrightarrow> same_layout a d"
  by (simp add: same_layout_def)

lemma fit_loop_char:
  assumes "distinct vs" and "fit_loop L s M K DTI idx msk vs a = Inr r"
  shows "same_layout a r
       \<and> progress r = progress a + length (filter (\<lambda>v. at3 msk v \<noteq> 0) vs)
       \<and> (\<forall>v. if v \<in> set vs \<and> at3 msk v \<noteq> 0
               then (\<exists>a'. voxel_fit L s M K DTI idx v a = Inr a' \<and> slot r v = slot a' v)
               else slot r v = slot a v)"
  using assms
proof (induction vs arbitrary: a)
  case Nil
  then show ?case by (simp add: same_layout_refl)
next
  case (Cons v vs)
  show ?case
  proof (cases "at3 msk v = 0")
    case True
    with Cons.prems have "fit_loop L s M K DTI idx msk vs a = Inr r" by simp
    with Cons.IH Cons.prems(1) have ih: "same_layout a r"
      "progress r = progress a + length (filter (\<lambda>v. at3 msk v \<noteq> 0) vs)"
      "\<And>w. if w \<in> set vs \<and> at3 msk w \<noteq> 0
             then (\<exists>a'. voxel_fit L s M K DTI idx w a = Inr a' \<and> slot r w = slot a' w)
             else slot r w = slot a w"
      by auto
    show ?thesis
    proof (intro conjI allI)
      show "same_layout a r" by (rule ih(1))
      show "progress r = progress a + length (filter (\<lambda>v. at3 msk v \<noteq> 0) (v # vs))"
        using ih(2) True by simp
      fix w
      show "if w \<in> set (v # vs) \<and> at3 msk w \<noteq> 0
            then (\<exists>a'. voxel_fit L s M K DTI idx w a = Inr a' \<and> slot r w = slot a' w)
            else slot r w = slot a w"
        using ih(3) [of w] True by auto
    qed
  next
    case False
    with Cons.prems obtain a1 where
      step: "voxel_fit L s M K DTI idx v a = Inr a1"
      and rest: "fit_loop L s M K DTI idx msk vs a1 = Inr r"
      by (auto split: sum.splits)
    from voxel_fit_frame [OF step] have fr: "same_layout a a1"
      "\<And>w. w \<noteq> v \<Longrightarrow> slot a1 w = slot a w" "progress a1 = progress a + 1"
      by auto
    from Cons.IH [OF _ rest] Cons.prems(1) have ih: "same_layout a1 r"
      "progress r = progress a1 + length (filter (\<lambda>v. at3 msk v \<noteq> 0) vs)"
      "\<And>w. if w \<in> set vs \<and> at3 msk w \<noteq> 0
             then (\<exists>a'. voxel_fit L s M K DTI idx w a1 = Inr a' \<and> slot r w = slot a' w)
             else slot r w = slot a1 w"
      by auto
    have notin: "v \<notin> set vs" using Cons.prems(1) by simp
    show ?thesis
    proof (intro conjI allI)
      show "same_layout a r" using fr(1) ih(1) by (rule same_layout_trans)
      show "progress r = progress a + length (filter (\<lambda>v. at3 msk v \<noteq> 0) (v # vs))"
        using ih(2) fr(3) False by simp
      fix w
      show "if w \<in> set (v # vs) \<and> at3 msk w \<noteq> 0
            then (\<exists>a'. voxel_fit L s M K DTI idx w a = Inr a' \<and> slot r w = slot a' w)
            else slot r w = slot a w"
      proof (cases "w = v")
        case True
        with ih(3) [of v] notin have "slot r v = slot a1 v" by simp
        with True step False show ?thesis by auto
      next
        case wv: False
        show ?thesis
        proof (cases "w \<in> set vs \<and> at3 msk w \<noteq> 0")
          case True
          with ih(3) [of w] obtain a2 where
            a2: "voxel_fit L s M K DTI idx w a1 = Inr a2" "slot r w = slot a2 w"
            by auto
          from voxel_fit_local [OF a2(1) same_layout_sym [OF fr(1)]] fr(2) [OF wv]
          obtain a3 where "voxel_fit L s M K DTI idx w a = Inr a3" "slot a3 w = slot a2 w"
            by auto
          with a2(2) True show ?thesis by auto
        next
          case False
          with ih(3) [of w] fr(2) [OF wv] wv show ?thesis by auto
        qed
      qed
    qed
  qed
qed

lemma fit_loop_succeeds:
  assumes "distinct vs"
    and "\<And>v. v \<in> set vs \<Longrightarrow> at3 msk v \<noteq> 0 \<Longrightarrow> \<exists>a'. voxel_fit L s M K DTI idx v a = Inr a'"
  shows "\<exists>r. fit_loop L s M K DTI idx msk vs a = Inr r"
  using assms
proof (induction vs arbitrary: a)
  case Nil
  then show ?case by simp
next
  case (Cons v vs)
  show ?case
  proof (cases "at3 msk v = 0")
    case True
    then show ?thesis using Cons.IH [of a] Cons.prems by simp
  next
    case False
    with Cons.prems(2) [of v] obtain a1 where step: "voxel_fit L s M K DTI idx v a = Inr a1"
      by auto
    from voxel_fit_frame [OF step] have fr: "same_layout a a1"
      "\<And>w. w \<noteq> v \<Longrightarrow> slot a1 w = slot a w"
      by auto
    have "\<exists>r. fit_loop L s M K DTI idx msk vs a1 = Inr r"
    proof (rule Cons.IH)
      show "distinct vs" using Cons.prems(1) by simp
      fix w assume w: "w \<in> set vs" "at3 msk w \<noteq> 0"
      then have wv: "w \<noteq> v" using Cons.prems(1) by auto
      from Cons.prems(2) [of w] w obtain a2 where "voxel_fit L s M K DTI idx w a = Inr a2"
        by auto
      from voxel_fit_local [OF this fr(1)] fr(2) [OF wv]
      show "\<exists>a'. voxel_fit L s M K DTI idx w a1 = Inr a'" by auto
    qed
    with step False show ?thesis by simp
  qed
qed

lemma array4_eqI:
  fixes A B :: "'a array4"
  assumes "shape4 A = shape4 B" "len4 A = len4 B" "\<And>v. at4 A v = at4 B v"
  shows "A = B"
  using assms by (intro array4.equality) auto

lemma array3_opt_eqI:
  fixes A B :: "'a array3 option"
  assumes "map_option shape3 A = map_option shape3 B"
    "\<And>v. map_option (\<lambda>E. at3 E v) A = map_option (\<lambda>E. at3 E v) B"
  shows "A = B"
proof (cases A)
  case None
  then show ?thesis using assms(1) by simp
next
  case (Some E)
  with assms(1) obtain F where F: "B = Some F" "shape3 E = shape3 F" by (cases B) auto
  with assms(2) Some have "\<And>v. at3 E v = at3 F v" by simp
  then have "E = F" using F(2) by (intro array3.equality) auto
  then show ?thesis using Some F by simp
qed

lemma fit_vars_eqI:
  assumes "same_layout a c" "\<And>v. slot a v = slot c v" "progress a = progress c"
  shows "a = c"
proof -
  have d: "DIRs a = DIRs c"
    using assms(1,2) by (intro array4_eqI) (simp_all add: same_layout_def slot_def)
  have m: "MAPs a = MAPs c"
    using assms(1,2) by (intro array4_eqI) (simp_all add: same_layout_def slot_def)
  have n: "NRMSE a = NRMSE c"
    using assms(1,2) by (intro array3_opt_eqI) (simp_all add: same_layout_def slot_def)
  show ?thesis using d m n assms(3) by (intro fit_vars.equality) auto
qed

lemma fit_loop_order:
  assumes "distinct vs" "distinct vs'" "set vs' = set vs"
    and "fit_loop L s M K DTI idx msk vs a = Inr r"
  shows "fit_loop L s M K DTI idx msk vs' a = Inr r"
proof -
  note c = fit_loop_char [OF assms(1) assms(4)]
  have "\<exists>r'. fit_loop L s M K DTI idx msk vs' a = Inr r'"
  proof (rule fit_loop_succeeds [OF assms(2)])
    fix v assume "v \<in> set vs'" "at3 msk v \<noteq> 0"
    with c assms(3) show "\<exists>a'. voxel_fit L s M K DTI idx v a = Inr a'" by metis
  qed
  then obtain r' where r': "fit_loop L s M K DTI idx msk vs' a = Inr r'" ..
  note c' = fit_loop_char [OF assms(2) r']
  have "length (filter (\<lambda>v. at3 msk v \<noteq> 0) vs') = length (filter (\<lambda>v. at3 msk v \<noteq> 0) vs)"
  proof -
    have "card (set (filter (\<lambda>v. at3 msk v \<noteq> 0) vs')) = card (set (filter (\<lambda>v. at3 msk v \<noteq> 0) vs))"
      using assms(3) by simp
    then show ?thesis using assms(1,2) by (simp only: distinct_card distinct_filter)
  qed
  have "r' = r"
  proof (rule fit_vars_eqI)
    show "same_layout r' r" using c c' same_layout_sym same_layout_trans by blast
    show "progress r' = progress r" using c c' \<open>length _ = length _\<close> by simp
    fix v
    show "slot r' v = slot r v"
    proof (cases "v \<in> set vs \<and> at3 msk v \<noteq> 0")
      case True
      with c obtain a1 where "voxel_fit L s M K DTI idx v a = Inr a1" "slot r v = slot a1 v"
        by metis
      moreover from True c' assms(3) obtain a2 where
        "voxel_fit L s M K DTI idx v a = Inr a2" "slot r' v = slot a2 v"
        by metis
      ultimately show ?thesis by simp
    next
      case False
      with c have "slot r v = slot a v" by metis
      moreover from False c' assms(3) have "slot r' v = slot a v" by metis
      ultimately show ?thesis by simp
    qed
  qed
  with r' show ?thesis by simp
qed

subsection \<open>The voxel list, and what a successful \<^verbatim>\<open>fit\<close> ran\<close>

lemma voxels_set: "set (voxels d) = {v. in_shape d v}"
  by (cases d) (auto simp: voxels_def image_iff)

lemma distinct_concat_map:
  assumes "distinct js" and "\<And>j. j \<in> set js \<Longrightarrow> distinct (f j)"
    and "\<And>i j. i \<in> set js \<Longrightarrow> j \<in> set js \<Longrightarrow> i \<noteq> j \<Longrightarrow> set (f i) \<inter> set (f j) = {}"
  shows "distinct (concat (map f js))"
  using assms
proof (induction js)
  case Nil
  then show ?case by simp
next
  case (Cons j js)
  have "distinct (concat (map f js))"
    by (rule Cons.IH) (use Cons.prems in auto)
  moreover have "distinct (f j)" using Cons.prems(2) by simp
  moreover have "set (f j) \<inter> set (concat (map f js)) = {}"
  proof -
    have "\<And>i. i \<in> set js \<Longrightarrow> set (f j) \<inter> set (f i) = {}"
      using Cons.prems(1,3) by (metis distinct.simps(2) list.set_intros(1,2))
    then show ?thesis by auto
  qed
  ultimately show ?case by simp
qed

lemma voxels_distinct: "distinct (voxels d)"
proof -
  obtain nx ny nz where d: "d = (nx, ny, nz)" by (cases d) auto
  have inner: "\<And>iy iz. distinct (map (\<lambda>ix. (ix, iy, iz)) [0..<nx])"
    by (simp add: distinct_map inj_on_def)
  have mid: "\<And>iz. distinct (concat (map (\<lambda>iy. map (\<lambda>ix. (ix, iy, iz)) [0..<nx]) [0..<ny]))"
    by (rule distinct_concat_map) (auto simp: inner)
  show ?thesis unfolding d voxels_def prod.case
    by (rule distinct_concat_map) (auto simp: mid)
qed

lemma voxels_length: "length (voxels (nx, ny, nz)) = nx * ny * nz"
  by (simp add: voxels_def length_concat comp_def sum_list_triv)

lemma fit_success:
  assumes "fit L s = (None, s')"
  shows "\<exists>nii M K vars. niiDWI s = Some nii \<and> model s = Some M \<and> KERNELS s = Some K
           \<and> kmodel K = model_id M
           \<and> fit_body L (s\<lparr>CONFIG := (CONFIG s)\<lparr>fit_time := None\<rparr>\<rparr>) M K = Inr vars
           \<and> s' = s\<lparr>CONFIG := (CONFIG s)\<lparr>fit_time := Some (elapsed L)\<rparr>,
                     RESULTS := Some \<lparr>res_DIRs = DIRs vars, res_MAPs = MAPs vars,
                                      res_NRMSE = NRMSE vars\<rparr>\<rparr>"
  using assms
  by (auto simp: fit_def Let_def split: option.splits if_splits sum.splits)

lemma fit_body_success:
  assumes "fit_body L s M K = Inr vars"
  shows "\<exists>dirs DTI maps nrmse idx msk. setup_directions L s = Inr (dirs, DTI)
           \<and> setup_outputs s M = Inr (maps, nrmse, idx) \<and> niiMASK_img s = Some msk
           \<and> fit_loop L s M K DTI idx msk (voxels (shape3 msk))
                \<lparr>DIRs = dirs, MAPs = maps, NRMSE = nrmse, progress = 0\<rparr> = Inr vars"
  using assms
  by (auto simp: fit_body_def split: option.splits sum.splits prod.splits)

subsection \<open>Evaluating the small example\<close>

lemmas fl_eval = rnd_def ilog2.simps pow2_def rne_def Let_def

lemma rnd_zero [simp]: "rnd f 0 = Fin 0"
  by (simp add: rnd_def)

lemma rnd_vals:
  "rnd F64 1 = Fin 1" "rnd F64 2 = Fin 2" "rnd F32 2 = Fin 2" "rnd F32 1 = Fin 1"
  "rnd F64 (1/2) = Fin (1/2)" "rnd F32 (1/2) = Fin (1/2)" "rnd F32 4 = Fin 4" "rnd F64 4 = Fin 4"
  "rnd F32 (-1) = Fin (-1)"
  by (simp_all add: fl_eval)

lemma thr_val: "rnd F64 (1 / 1000) = Fin (1152921504606847 / 1152921504606846976)"
  by (simp add: fl_eval)

lemma ex_state_fields:
  "niiDWI ex_state = Some ex_dwi"
  "niiDWI_img ex_state = Some \<lparr>shape4 = (2, 1, 1), len4 = 2,
      at4 = (\<lambda>v. if v = (0, 0, 0) then [Fin 2, Fin 1] else [Fin 4, Fin (- 1)])\<rparr>"
  "scheme ex_state = Some ex_scheme"
  "niiMASK_img ex_state = Some \<lparr>shape3 = (2, 1, 1), at3 = (\<lambda>v. if v = (0, 0, 0) then 1 else 0)\<rparr>"
  "model ex_state = Some ex_model"
  "KERNELS ex_state = Some ex_kernels"
  "RESULTS ex_state = None"
  "CONFIG ex_state = \<lparr>study_path = ''study'', subject = ''subj'', DATA_path = ''study/subj'',
                peaks_filename = None, doNormalizeSignal = True, doMergeB0 = True,
                doComputeNRMSE = False, dwi_filename = Some ''DWI.nii'', scheme_filename = Some ''DWI.scheme'',
                b0_thr = Some (Fin 0), dim = Some (2, 1, 1), pixdim = Some (Fin 2, Fin 2, Fin 2), ATOMS_path = None,
                solver_params = None, lmax = None, fit_time = None\<rparr>"
  by (simp_all add: ex_state_def load_data_def load_mask_def init_def pjoin_def ex_libs_def Let_def
       ex_dwi_def ex_scheme_def ex_mask_def rescale_def astype_f32_def astype_uint8_def rnd_vals fun_eq_iff)


lemma voxels_211: "voxels (2, Suc 0, Suc 0) = [(0, 0, 0), (Suc 0, 0, 0)]"
  by (simp add: voxels_def upt_rec)

lemma np_mean_single: "np_mean [Fin 2] = Fin 2"
  by (simp add: np_mean_def np_sum_def pairwise_sum.simps rnd_vals)

lemma ex_prepare:
  "doMergeB0 cfg \<Longrightarrow> doNormalizeSignal cfg \<Longrightarrow>
     prepare_signal cfg ex_scheme [Fin 2, Fin 1] = Inr [Fin 1, Fin (1/2)]"
  by (simp add: prepare_signal_def b0_merging_def Let_def
        clamp_negative_def take_idx_def ex_scheme_def np_mean_single put_idx_def normalize_signal_def
        thr_val rnd_vals)

lemmas fit_eval = fit_def fit_body_def setup_directions_def setup_outputs_def voxel_fit_def
  voxel_signal_def voxel_dirs_def get_row_def reshape3_def set_row_def set_elem_def
  broadcast_row_def store_nrmse_def zeros4_def zeros3_def Let_def

lemma ex_scheme_fields:
  "nS ex_scheme = 2" "b0_idx ex_scheme = [0]" "b0_count ex_scheme = 1" "dwi_idx ex_scheme = [1]"
  by (simp_all add: ex_scheme_def)

lemma ex_model_fields:
  "model_id ex_model = ''Example''" "OUTPUT_names ex_model = [''first'']"
  "model_fit ex_model = (\<lambda>y dirs K idx p. Inr (y, concat dirs, [hd y]))"
  by (simp_all add: ex_model_def)

lemma ex_libs_fields:
  "TensorModel ex_libs = (\<lambda>bvals bvecs. Inr ())"
  "tensor_directions ex_libs = (\<lambda>g y. Inr [Fin 1, Fin 0, Fin 0])"
  "nibabel_load ex_libs ''study/subj/peaks.nii'' = Inr ex_peaks"
  "elapsed ex_libs = Fin 1"
  by (simp_all add: ex_libs_def)

lemma ex_fit_body: "fit_body ex_libs (ex_state\<lparr>CONFIG := (CONFIG ex_state)\<lparr>fit_time := None\<rparr>\<rparr>) ex_model ex_kernels
   = Inr \<lparr>DIRs = \<lparr>shape4 = (2, 1, 1), len4 = 3, at4 = (\<lambda>v. replicate 3 (Fin 0))((0, 0, 0) := [Fin 1, Fin 0, Fin 0])\<rparr>,
          MAPs = \<lparr>shape4 = (2, 1, 1), len4 = 1, at4 = (\<lambda>v. replicate 1 (Fin 0))((0, 0, 0) := [Fin 1])\<rparr>,
          NRMSE = None, progress = 1\<rparr>"
  by (simp add: fit_eval ex_state_fields ex_libs_fields ex_prepare
        ex_scheme_fields ex_model_fields voxels_211 rnd_vals)

lemma ex_load_full:
  "load_data ex_libs ''DWI.nii'' ''DWI.scheme'' None (Fin 0)
     (init ''study'' ''subj'' :: (unit, unit, unit, unit) evaluation)
   = (None, snd (load_data ex_libs ''DWI.nii'' ''DWI.scheme'' None (Fin 0) (init ''study'' ''subj'')))"
  by (simp add: load_data_def load_mask_def init_def pjoin_def ex_libs_def Let_def
       ex_dwi_def ex_scheme_def rescale_def astype_f32_def)

lemma ex_state_full_fields:
  "niiDWI ex_state_full = Some ex_dwi"
  "niiDWI_img ex_state_full = Some \<lparr>shape4 = (2, 1, 1), len4 = 2,
      at4 = (\<lambda>v. if v = (0, 0, 0) then [Fin 2, Fin 1] else [Fin 4, Fin (- 1)])\<rparr>"
  "scheme ex_state_full = Some ex_scheme"
  "niiMASK_img ex_state_full = Some (ones3 (2, 1, 1))"
  "model ex_state_full = Some ex_model"
  "KERNELS ex_state_full = Some ex_kernels"
  "CONFIG ex_state_full = \<lparr>study_path = ''study'', subject = ''subj'', DATA_path = ''study/subj'',
                peaks_filename = None, doNormalizeSignal = True, doMergeB0 = True,
                doComputeNRMSE = True, dwi_filename = Some ''DWI.nii'', scheme_filename = Some ''DWI.scheme'',
                b0_thr = Some (Fin 0), dim = Some (2, 1, 1), pixdim = Some (Fin 2, Fin 2, Fin 2), ATOMS_path = None,
                solver_params = None, lmax = None, fit_time = None\<rparr>"
  by (simp_all add: ex_state_full_def load_data_def load_mask_def init_def pjoin_def ex_libs_def Let_def
       ex_dwi_def ex_scheme_def rescale_def astype_f32_def rnd_vals fun_eq_iff)

lemma np_mean_4: "np_mean [Fin 4] = Fin 4"
  by (simp add: np_mean_def np_sum_def pairwise_sum.simps rnd_vals)

lemma ex_prepare2:
  "doMergeB0 cfg \<Longrightarrow> doNormalizeSignal cfg \<Longrightarrow>
     prepare_signal cfg ex_scheme [Fin 4, Fin (- 1)] = Inr [Fin 1, Fin 0]"
  by (simp add: prepare_signal_def b0_merging_def Let_def
        clamp_negative_def take_idx_def ex_scheme_def np_mean_4 put_idx_def normalize_signal_def
        thr_val rnd_vals)

lemma sumsq: "sum_squares [Fin 1, Fin (1/2)] = Fin (5/4)" "sum_squares [Fin 1, Fin 0] = Fin 1"
  "sum_squares [Fin 0, Fin 0] = Fin 0"
  by (simp_all add: sum_squares_def np_sum_def pairwise_sum.simps fl_eval)

lemma ex_nrmse: "compute_nrmse [Fin 1, Fin (1/2)] [Fin 1, Fin (1/2)] = Inr (Fin 0)"
  "compute_nrmse [Fin 1, Fin 0] [Fin 1, Fin 0] = Inr (Fin 0)"
  by (simp_all add: compute_nrmse_def sumsq np_subtract_def f_sub_def fl_eval)


lemma replicate_3: "replicate 3 x = [x, x, x]"
  by (simp add: numeral_3_eq_3)

lemma ones_211: "ones3 (2, Suc 0, Suc 0) = \<lparr>shape3 = (2, Suc 0, Suc 0), at3 = (\<lambda>v. 1)\<rparr>"
  by (simp add: ones3_def)

lemma ex_full_loop:
  assumes "CONFIG t = (CONFIG ex_state_full)\<lparr>fit_time := ft\<rparr>"
    "niiDWI_img t = niiDWI_img ex_state_full" "scheme t = scheme ex_state_full"
    and "vs = [(0, 0, 0), (1, 0, 0)] \<or> vs = [(1, 0, 0), (0, 0, 0)]"
  shows "fit_loop ex_libs t ex_model ex_kernels (Some ()) (Some [1, 0])
           (ones3 (2, 1, 1)) vs ex_full_init = Inr ex_full_vars"
  using assms(4)
  by (auto simp: assms(1,2,3) fit_eval ex_state_full_fields ex_libs_fields ex_prepare ex_prepare2 ex_nrmse
        ex_scheme_fields ex_model_fields rnd_vals ones3_def ex_full_init_def ex_full_vars_def fun_eq_iff
        replicate_3)

lemma ex_full_fit_body:
  "fit_body ex_libs (ex_state_full\<lparr>CONFIG := (CONFIG ex_state_full)\<lparr>fit_time := None\<rparr>\<rparr>)
     ex_model ex_kernels = Inr ex_full_vars"
proof -
  let ?t = "ex_state_full\<lparr>CONFIG := (CONFIG ex_state_full)\<lparr>fit_time := None\<rparr>\<rparr>"
  have "fit_loop ex_libs ?t ex_model ex_kernels (Some ()) (Some [1, 0])
           (ones3 (2, 1, 1)) [(0, 0, 0), (1, 0, 0)] ex_full_init = Inr ex_full_vars"
    by (rule ex_full_loop [where ft = None]) simp_all
  then show ?thesis
    by (simp add: fit_body_def setup_directions_def setup_outputs_def ex_state_full_fields
          ex_libs_fields ex_scheme_fields ex_model_fields voxels_211 ones3_def ex_full_init_def)
qed

lemma ex_full_fit:
  "fit ex_libs ex_state_full
     = (None, ex_state_full\<lparr>CONFIG := (CONFIG ex_state_full)\<lparr>fit_time := Some (Fin 1)\<rparr>,
                            RESULTS := Some \<lparr>res_DIRs = DIRs ex_full_vars, res_MAPs = MAPs ex_full_vars,
                                             res_NRMSE = NRMSE ex_full_vars\<rparr>\<rparr>)"
  using ex_full_fit_body
  by (simp add: fit_def ex_state_full_fields(1,5,6) ex_model_fields ex_kernels_def ex_libs_fields)

subsection \<open>Geometry checks of \<^verbatim>\<open>load_data\<close>\<close>

text \<open>
  Claim C3. Once nibabel has returned the signal volume and the scheme is built,
  \<^verbatim>\<open>load_data\<close> raises \<^verbatim>\<open>ValueError\<close> when the scheme's number of samples differs from
  the length of the volume's fourth axis; the volume it keeps has all its samples (nothing
  is cut to fit the scheme). When a mask is given whose shape differs from the first three
  dimensions of the signal, \<^verbatim>\<open>load_data\<close> raises \<^verbatim>\<open>ValueError\<close> as well (the scheme's
  message if the scheme does not match either, the mask's message otherwise), and no
  results exist that a fit could have produced.
\<close>

theorem load_data_geometry:
  assumes "nibabel_load L (pjoin (DATA_path (CONFIG s)) dwi_file) = Inr nii"
    and "Scheme L (pjoin (DATA_path (CONFIG s)) scheme_file) thr = Inr sch"
  shows "(nS sch \<noteq> len4 (nii_data nii) \<longrightarrow>
            fst (load_data L dwi_file scheme_file mask_filename thr s)
              = Some (ValueError ''Scheme does not match with DWI data'')
            \<and> map_option len4 (niiDWI_img (snd (load_data L dwi_file scheme_file mask_filename thr s)))
                = Some (len4 (nii_data nii))
            \<and> scheme (snd (load_data L dwi_file scheme_file mask_filename thr s)) = Some sch)
       \<and> (\<forall>f m. mask_filename = Some f
                  \<and> nibabel_load_mask L (pjoin (DATA_path (CONFIG s)) f) = Inr m
                  \<and> shape3 (mask_data m) \<noteq> shape4 (nii_data nii) \<longrightarrow>
            fst (load_data L dwi_file scheme_file mask_filename thr s)
              = Some (ValueError (if nS sch \<noteq> len4 (nii_data nii)
                                  then ''Scheme does not match with DWI data''
                                  else ''MASK geometry does not match with DWI data''))
            \<and> RESULTS (snd (load_data L dwi_file scheme_file mask_filename thr s)) = RESULTS s)"
  using assms
  by (auto simp: load_data_def load_mask_def Let_def rescale_def astype_f32_def astype_uint8_def)


theorem load_data_geometry_witness:
  "fst (load_data (ex_libs\<lparr>Scheme := (\<lambda>p thr. Inr (ex_scheme\<lparr>nS := 3\<rparr>))\<rparr>)
          ''DWI.nii'' ''DWI.scheme'' None (Fin 0)
          (init ''study'' ''subj'' :: (unit, unit, unit, unit) evaluation))
     = Some (ValueError ''Scheme does not match with DWI data'')
   \<and> fst (load_data (ex_libs\<lparr>nibabel_load_mask :=
                       (\<lambda>p. Inr (ex_mask\<lparr>mask_data := \<lparr>shape3 = (1, 1, 1), at3 = (\<lambda>v. 1)\<rparr>\<rparr>))\<rparr>)
          ''DWI.nii'' ''DWI.scheme'' (Some ''mask.nii'') (Fin 0)
          (init ''study'' ''subj'' :: (unit, unit, unit, unit) evaluation))
     = Some (ValueError ''MASK geometry does not match with DWI data'')"
proof -
  let ?s = "init ''study'' ''subj'' :: (unit, unit, unit, unit) evaluation"
  let ?L1 = "ex_libs\<lparr>Scheme := (\<lambda>p thr. Inr (ex_scheme\<lparr>nS := 3\<rparr>))\<rparr>"
  let ?L2 = "ex_libs\<lparr>nibabel_load_mask :=
               (\<lambda>p. Inr (ex_mask\<lparr>mask_data := \<lparr>shape3 = (1, 1, 1), at3 = (\<lambda>v. 1)\<rparr>\<rparr>))\<rparr>"
  have p: "pjoin (DATA_path (CONFIG ?s)) ''DWI.nii'' = ''study/subj/DWI.nii''"
    "pjoin (DATA_path (CONFIG ?s)) ''DWI.scheme'' = ''study/subj/DWI.scheme''"
    by (simp_all add: init_def pjoin_def)
  have a1: "nibabel_load ?L1 (pjoin (DATA_path (CONFIG ?s)) ''DWI.nii'') = Inr ex_dwi"
    unfolding p by (simp add: ex_libs_def)
  have b1: "Scheme ?L1 (pjoin (DATA_path (CONFIG ?s)) ''DWI.scheme'') (Fin 0) = Inr (ex_scheme\<lparr>nS := 3\<rparr>)"
    by simp
  have a2: "nibabel_load ?L2 (pjoin (DATA_path (CONFIG ?s)) ''DWI.nii'') = Inr ex_dwi"
    unfolding p by (simp add: ex_libs_def)
  have b2: "Scheme ?L2 (pjoin (DATA_path (CONFIG ?s)) ''DWI.scheme'') (Fin 0) = Inr ex_scheme"
    unfolding p by (simp add: ex_libs_def)
  show ?thesis
    using load_data_geometry [OF a1 b1, of None]
      load_data_geometry [OF a2 b2, of "Some ''mask.nii''"]
    by (simp add: ex_dwi_def ex_scheme_def ex_mask_def)
qed

subsection \<open>The default mask\<close>

lemma fit_progress:
  assumes "fit L t = (None, t')" and "niiMASK_img t = Some msk"
  shows "\<exists>M K vars. fit_body L (t\<lparr>CONFIG := (CONFIG t)\<lparr>fit_time := None\<rparr>\<rparr>) M K = Inr vars
           \<and> progress vars = length (filter (\<lambda>v. at3 msk v \<noteq> 0) (voxels (shape3 msk)))
           \<and> RESULTS t' = Some \<lparr>res_DIRs = DIRs vars, res_MAPs = MAPs vars,
                                 res_NRMSE = NRMSE vars\<rparr>"
proof -
  from fit_success [OF assms(1)] obtain M K vars where
    fb: "fit_body L (t\<lparr>CONFIG := (CONFIG t)\<lparr>fit_time := None\<rparr>\<rparr>) M K = Inr vars"
    and t': "RESULTS t' = Some \<lparr>res_DIRs = DIRs vars, res_MAPs = MAPs vars, res_NRMSE = NRMSE vars\<rparr>"
    by auto
  from fit_body_success [OF fb] assms(2) obtain dirs DTI maps nrmse idx where
    "fit_loop L (t\<lparr>CONFIG := (CONFIG t)\<lparr>fit_time := None\<rparr>\<rparr>) M K DTI idx msk (voxels (shape3 msk))
       \<lparr>DIRs = dirs, MAPs = maps, NRMSE = nrmse, progress = 0\<rparr> = Inr vars"
    by auto
  from fit_loop_char [OF voxels_distinct this]
  have "progress vars = length (filter (\<lambda>v. at3 msk v \<noteq> 0) (voxels (shape3 msk)))" by simp
  with fb t' show ?thesis by blast
qed

text \<open>
  Claim C10. After a \<^verbatim>\<open>load_data\<close> without mask file that returns normally, the mask is
  the all-ones volume with the spatial shape of the signal, every voxel counts as non-zero,
  and a \<^verbatim>\<open>fit\<close> that runs with this mask and returns normally has advanced its progress
  once per voxel of the volume: it processed them all.
\<close>

theorem default_mask:
  assumes "load_data L dwi_file scheme_file None thr s = (None, s')"
  shows "\<exists>img. niiDWI_img s' = Some img \<and> dim (CONFIG s') = Some (shape4 img)
           \<and> niiMASK_img s' = Some (ones3 (shape4 img))
           \<and> (\<forall>v. at3 (ones3 (shape4 img)) v = 1)
           \<and> count_nonzero (ones3 (shape4 img)) = length (voxels (shape4 img))
           \<and> (\<forall>(L' :: ('h, 'c, 'j) libs) (t :: ('l, 'q, 'c, 'j) evaluation) t'.
                 niiMASK_img t = niiMASK_img s' \<and> fit L' t = (None, t') \<longrightarrow>
                 (\<exists>M K vars. fit_body L' (t\<lparr>CONFIG := (CONFIG t)\<lparr>fit_time := None\<rparr>\<rparr>) M K = Inr vars
                    \<and> progress vars = length (voxels (shape4 img))
                    \<and> RESULTS t' = Some \<lparr>res_DIRs = DIRs vars, res_MAPs = MAPs vars,
                                          res_NRMSE = NRMSE vars\<rparr>))"
proof -
  from assms obtain img where
    img: "niiDWI_img s' = Some img" "dim (CONFIG s') = Some (shape4 img)"
      "niiMASK_img s' = Some (ones3 (shape4 img))"
    by (auto simp: load_data_def load_mask_def Let_def rescale_def astype_f32_def
          split: sum.splits if_splits option.splits)
  have ones: "\<And>v. at3 (ones3 (shape4 img)) v = 1" by (simp add: ones3_def)
  have sh: "shape3 (ones3 (shape4 img)) = shape4 img" by (simp add: ones3_def)
  have cnt: "count_nonzero (ones3 (shape4 img)) = length (voxels (shape4 img))"
    by (simp add: count_nonzero_def ones sh)
  have fitp: "\<exists>M K vars. fit_body L' (t\<lparr>CONFIG := (CONFIG t)\<lparr>fit_time := None\<rparr>\<rparr>) M K = Inr vars
                    \<and> progress vars = length (voxels (shape4 img))
                    \<and> RESULTS t' = Some \<lparr>res_DIRs = DIRs vars, res_MAPs = MAPs vars,
                                          res_NRMSE = NRMSE vars\<rparr>"
    if "niiMASK_img t = niiMASK_img s'" "fit L' t = (None, t')"
    for L' :: "('h, 'c, 'j) libs" and t t' :: "('l, 'q, 'c, 'j) evaluation"
    using fit_progress [OF that(2), of "ones3 (shape4 img)"] that(1) img(3)
    by (simp add: ones sh)
  show ?thesis using img ones cnt fitp by blast
qed

theorem default_mask_witness:
  "fst (load_data ex_libs ''DWI.nii'' ''DWI.scheme'' None (Fin 0)
          (init ''study'' ''subj'' :: (unit, unit, unit, unit) evaluation)) = None
   \<and> niiMASK_img ex_state_full = Some (ones3 (2, 1, 1))
   \<and> count_nonzero (ones3 (2, 1, 1)) = 2
   \<and> fst (fit ex_libs ex_state_full) = None
   \<and> (\<exists>M K vars.
         fit_body ex_libs (ex_state_full\<lparr>CONFIG := (CONFIG ex_state_full)\<lparr>fit_time := None\<rparr>\<rparr>) M K
           = Inr vars
         \<and> progress vars = 2
         \<and> RESULTS (snd (fit ex_libs ex_state_full))
             = Some \<lparr>res_DIRs = DIRs vars, res_MAPs = MAPs vars, res_NRMSE = NRMSE vars\<rparr>)"
proof -
  let ?s' = "snd (load_data ex_libs ''DWI.nii'' ''DWI.scheme'' None (Fin 0)
                    (init ''study'' ''subj'' :: (unit, unit, unit, unit) evaluation))"
  have img: "niiDWI_img ?s' = niiDWI_img ex_state_full" "niiMASK_img ?s' = niiMASK_img ex_state_full"
    by (simp_all add: ex_state_full_def Let_def)
  have f: "fit ex_libs ex_state_full = (None, snd (fit ex_libs ex_state_full))"
    by (simp add: ex_full_fit)
  from default_mask [OF ex_load_full] obtain im where
    im: "niiDWI_img ?s' = Some im" "niiMASK_img ?s' = Some (ones3 (shape4 im))"
      "count_nonzero (ones3 (shape4 im)) = length (voxels (shape4 im))"
    and all: "\<And>(L' :: (unit, unit, unit) libs) (t :: (unit, unit, unit, unit) evaluation) t'.
         niiMASK_img t = niiMASK_img ?s' \<Longrightarrow> fit L' t = (None, t') \<Longrightarrow>
           (\<exists>M K vars. fit_body L' (t\<lparr>CONFIG := (CONFIG t)\<lparr>fit_time := None\<rparr>\<rparr>) M K = Inr vars
              \<and> progress vars = length (voxels (shape4 im))
              \<and> RESULTS t' = Some \<lparr>res_DIRs = DIRs vars, res_MAPs = MAPs vars,
                                    res_NRMSE = NRMSE vars\<rparr>)"
    by blast
  have sh: "shape4 im = (2, 1, 1)" using im(1) img(1) by (auto simp: ex_state_full_fields)
  have len: "length (voxels (shape4 im)) = 2" unfolding sh by (simp add: voxels_length)
  have l0: "fst (load_data ex_libs ''DWI.nii'' ''DWI.scheme'' None (Fin 0)
                  (init ''study'' ''subj'' :: (unit, unit, unit, unit) evaluation)) = None"
    by (metis ex_load_full fst_conv)
  have f0: "fst (fit ex_libs ex_state_full) = None" by (simp add: ex_full_fit)
  show ?thesis
    using all [OF img(2) [symmetric] f] im(2,3) img(2) sh len l0 f0
    by simp
qed

subsection \<open>The signal of a voxel and its fitting error\<close>

lemma eps_val: "rnd F64 (1 / 10 ^ 16) = Fin (2028240960365167 / 20282409603651670423947251286016)"
  by (simp add: fl_eval)

lemma clamp_negative_idem: "clamp_negative (clamp_negative row) = clamp_negative row"
  by (simp add: clamp_negative_def)

lemma clamp_negative_nonneg: "a \<in> set (clamp_negative row) \<Longrightarrow> \<not> f_lt a (Fin 0)"
  by (auto simp: clamp_negative_def)

lemma fit_keeps_signal: "niiDWI_img (snd (fit L s)) = niiDWI_img s \<and> niiDWI (snd (fit L s)) = niiDWI s"
  by (simp add: fit_def Let_def split: option.splits sum.splits)

lemma voxel_fit_state_cong:
  assumes "voxel_signal t v = voxel_signal s v" "CONFIG t = CONFIG s"
  shows "voxel_fit L t M K DTI idx v vars = voxel_fit L s M K DTI idx v vars"
  by (simp add: voxel_fit_def voxel_dirs_def store_nrmse_def assms
        cong: sum.case_cong option.case_cong prod.case_cong if_cong)

lemma voxel_signal_clamped:
  assumes "niiDWI_img s = Some img"
  shows "voxel_signal (s\<lparr>niiDWI_img := Some (img\<lparr>at4 := (\<lambda>w. clamp_negative (at4 img w))\<rparr>)\<rparr>) v
           = voxel_signal s v"
  using assms
  by (simp add: voxel_signal_def get_row_def prepare_signal_def clamp_negative_idem
        split: option.splits)

text \<open>
  Claim C8. \<^verbatim>\<open>fit\<close> never writes to the stored signal volume: whatever it returns, the
  volume is the one it was given. The working copy of a voxel's samples has the length of
  the stored vector; each of its values is the stored value, or zero where the stored value
  is negative, so none of its values is negative. Everything the loop does with a voxel
  goes through this copy: the prepared signal is computed from the clamped vector, and
  replacing the stored volume by its clamped version changes nothing in the voxel's step.
\<close>

theorem working_copy_clamped:
  "niiDWI_img (snd (fit L s)) = niiDWI_img s
   \<and> length (clamp_negative row) = length row
   \<and> (\<forall>i < length row. clamp_negative row ! i = (if f_lt (row ! i) (Fin 0) then Fin 0 else row ! i))
   \<and> (\<forall>a \<in> set (clamp_negative row). \<not> f_lt a (Fin 0))
   \<and> (niiDWI_img s = Some img \<longrightarrow>
        voxel_signal s v =
             (case get_row img v of Inl e \<Rightarrow> Inl e
              | Inr row' \<Rightarrow> (case scheme s of None \<Rightarrow> Inl AttributeError
                              | Some sch \<Rightarrow> prepare_signal (CONFIG s) sch (clamp_negative row')))
        \<and> voxel_fit L (s\<lparr>niiDWI_img := Some (img\<lparr>at4 := (\<lambda>w. clamp_negative (at4 img w))\<rparr>)\<rparr>)
              M K DTI idx v vars
            = voxel_fit L s M K DTI idx v vars)"
proof (intro conjI impI ballI allI)
  show "niiDWI_img (snd (fit L s)) = niiDWI_img s" by (simp add: fit_keeps_signal)
  show "length (clamp_negative row) = length row" by (simp add: clamp_negative_def)
  show "clamp_negative row ! i = (if f_lt (row ! i) (Fin 0) then Fin 0 else row ! i)"
    if "i < length row" for i
    using that by (simp add: clamp_negative_def)
  show "\<not> f_lt a (Fin 0)" if "a \<in> set (clamp_negative row)" for a
    using that by (rule clamp_negative_nonneg)
  assume img: "niiDWI_img s = Some img"
  show "voxel_fit L (s\<lparr>niiDWI_img := Some (img\<lparr>at4 := (\<lambda>w. clamp_negative (at4 img w))\<rparr>)\<rparr>)
              M K DTI idx v vars = voxel_fit L s M K DTI idx v vars"
    by (rule voxel_fit_state_cong) (simp_all add: voxel_signal_clamped [OF img])
  show "voxel_signal s v =
             (case get_row img v of Inl e \<Rightarrow> Inl e
              | Inr row' \<Rightarrow> (case scheme s of None \<Rightarrow> Inl AttributeError
                              | Some sch \<Rightarrow> prepare_signal (CONFIG s) sch (clamp_negative row')))"
    by (simp add: voxel_signal_def img prepare_signal_def clamp_negative_idem
          split: sum.splits option.splits)
qed

lemma thr_positive:
  assumes "f_lt (rnd F64 (1 / 1000)) b0"
  shows "b0 = PInf \<or> (\<exists>r. b0 = Fin r \<and> 1 / 1000 < r)"
  using assms by (cases b0) (simp_all add: thr_val)

text \<open>
  Claim C5. When the signal of a voxel has been prepared, \<open>b0\<close> is the mean of the clamped
  samples at the b0 indices and \<open>ym\<close> the signal after the b0 merging. If normalisation is
  enabled and \<open>b0 > 1e-3\<close>, the prepared signal is \<open>ym\<close> divided by \<open>b0\<close> elementwise, and
  the divisor is then larger than \<open>1/1000\<close> (or infinite): never zero or close to zero, and
  never NaN. Otherwise the prepared signal is \<open>ym\<close> itself, undivided.
\<close>

theorem normalization_guard:
  assumes "voxel_signal s v = Inr y"
  shows "\<exists>img row sch b0 ym.
           niiDWI_img s = Some img \<and> get_row img v = Inr row \<and> scheme s = Some sch
           \<and> take_idx (clamp_negative row) (b0_idx sch) = Inr (map (\<lambda>i. clamp_negative row ! i) (b0_idx sch))
           \<and> b0 = np_mean (map (\<lambda>i. clamp_negative row ! i) (b0_idx sch))
           \<and> b0_merging (CONFIG s) sch (clamp_negative row) = Inr (b0, ym)
           \<and> (if doNormalizeSignal (CONFIG s) \<and> f_lt (rnd F64 (1 / 1000)) b0
               then y = map (\<lambda>a. f_div F64 a b0) ym
                    \<and> (b0 = PInf \<or> (\<exists>r. b0 = Fin r \<and> 1 / 1000 < r))
               else y = ym)"
proof -
  from assms obtain img row sch where
    i: "niiDWI_img s = Some img" "get_row img v = Inr row" "scheme s = Some sch"
    and p: "prepare_signal (CONFIG s) sch row = Inr y"
    by (auto simp: voxel_signal_def split: option.splits sum.splits)
  from p obtain b0 ym where
    m: "b0_merging (CONFIG s) sch (clamp_negative row) = Inr (b0, ym)"
    and y: "y = normalize_signal (CONFIG s) b0 ym"
    by (auto simp: prepare_signal_def split: sum.splits prod.splits)
  from m have t: "take_idx (clamp_negative row) (b0_idx sch)
                    = Inr (map (\<lambda>i. clamp_negative row ! i) (b0_idx sch))"
    and b: "b0 = np_mean (map (\<lambda>i. clamp_negative row ! i) (b0_idx sch))"
    by (auto simp: b0_merging_def take_idx_def Let_def split: sum.splits if_splits)
  have "if doNormalizeSignal (CONFIG s) \<and> f_lt (rnd F64 (1 / 1000)) b0
        then y = map (\<lambda>a. f_div F64 a b0) ym
             \<and> (b0 = PInf \<or> (\<exists>r. b0 = Fin r \<and> 1 / 1000 < r))
        else y = ym"
    using thr_positive [of b0] by (simp add: y normalize_signal_def)
  with i t b m show ?thesis by blast
qed


lemma ex_full_signal:
  "voxel_signal ex_state_full (0, 0, 0) = Inr [Fin 1, Fin (1 / 2)]"
  "voxel_signal ex_state_full (1, 0, 0) = Inr [Fin 1, Fin 0]"
  by (simp_all add: voxel_signal_def ex_state_full_fields get_row_def ex_prepare ex_prepare2)

theorem working_copy_clamped_witness:
  "niiDWI_img (snd (fit ex_libs ex_state_full)) = niiDWI_img ex_state_full
   \<and> clamp_negative [Fin 4, Fin (- 1)] ! 0 = Fin 4
   \<and> clamp_negative [Fin 4, Fin (- 1)] ! 1 = Fin 0
   \<and> voxel_signal ex_state_full (1, 0, 0)
       = prepare_signal (CONFIG ex_state_full) ex_scheme (clamp_negative [Fin 4, Fin (- 1)])"
proof -
  let ?img = "\<lparr>shape4 = (2, 1, 1), len4 = 2,
        at4 = (\<lambda>v. if v = (0, 0, 0) then [Fin 2, Fin 1] else [Fin 4, Fin (- 1)])\<rparr>"
  note w = working_copy_clamped [of ex_libs ex_state_full "[Fin 4, Fin (- 1)]" ?img
      "(1, 0, 0)" ex_model ex_kernels "Some ()" "Some [1, 0]" ex_full_init]
  from w have 1: "niiDWI_img (snd (fit ex_libs ex_state_full)) = niiDWI_img ex_state_full"
    by blast
  from w have 2: "\<forall>i<length [Fin 4, Fin (- 1)]. clamp_negative [Fin 4, Fin (- 1)] ! i
      = (if f_lt ([Fin 4, Fin (- 1)] ! i) (Fin 0) then Fin 0 else [Fin 4, Fin (- 1)] ! i)"
    by blast
  from 2 have 3: "clamp_negative [Fin 4, Fin (- 1)] ! 0 = Fin 4"
    "clamp_negative [Fin 4, Fin (- 1)] ! 1 = Fin 0"
    by simp_all
  from w have 4: "voxel_signal ex_state_full (1, 0, 0) =
             (case get_row ?img (1, 0, 0) of Inl e \<Rightarrow> Inl e
              | Inr row' \<Rightarrow> (case scheme ex_state_full of None \<Rightarrow> Inl AttributeError
                              | Some sch \<Rightarrow> prepare_signal (CONFIG ex_state_full) sch (clamp_negative row')))"
    using ex_state_full_fields(2) by blast
  then have 5: "voxel_signal ex_state_full (1, 0, 0)
       = prepare_signal (CONFIG ex_state_full) ex_scheme (clamp_negative [Fin 4, Fin (- 1)])"
    by (simp add: get_row_def ex_state_full_fields(3))
  from 1 3 5 show ?thesis by blast
qed

theorem normalization_guard_witness:
  "voxel_signal ex_state_full (0, 0, 0) = Inr [Fin 1, Fin (1 / 2)]
   \<and> b0_merging (CONFIG ex_state_full) ex_scheme (clamp_negative [Fin 2, Fin 1])
       = Inr (Fin 2, [Fin 2, Fin 1])
   \<and> f_lt (rnd F64 (1 / 1000)) (Fin 2)
   \<and> [Fin 1, Fin (1 / 2)] = map (\<lambda>a. f_div F64 a (Fin 2)) [Fin 2, Fin 1]"
proof -
  have m: "b0_merging (CONFIG ex_state_full) ex_scheme (clamp_negative [Fin 2, Fin 1])
             = Inr (Fin 2, [Fin 2, Fin 1])"
    by (simp add: b0_merging_def clamp_negative_def take_idx_def ex_scheme_fields np_mean_single
          put_idx_def ex_state_full_fields Let_def)
  have n: "doNormalizeSignal (CONFIG ex_state_full)" by (simp add: ex_state_full_fields)
  have t: "f_lt (rnd F64 (1 / 1000)) (Fin 2)" by (simp add: thr_val)
  from normalization_guard [OF ex_full_signal(1)] obtain row sch b0 ym where
    g: "get_row (the (niiDWI_img ex_state_full)) (0, 0, 0) = Inr row" "scheme ex_state_full = Some sch"
      "b0_merging (CONFIG ex_state_full) sch (clamp_negative row) = Inr (b0, ym)"
      "if doNormalizeSignal (CONFIG ex_state_full) \<and> f_lt (rnd F64 (1 / 1000)) b0
       then [Fin 1, Fin (1 / 2)] = map (\<lambda>a. f_div F64 a b0) ym
            \<and> (b0 = PInf \<or> (\<exists>r. b0 = Fin r \<and> 1 / 1000 < r))
       else [Fin 1, Fin (1 / 2)] = ym"
    by auto
  from g(1) have row: "row = [Fin 2, Fin 1]" by (simp add: ex_state_full_fields get_row_def)
  from g(2) have sch: "sch = ex_scheme" by (simp add: ex_state_full_fields)
  from g(3) m have bm: "b0 = Fin 2" "ym = [Fin 2, Fin 1]" unfolding row sch by auto
  from g(3) have m': "b0_merging (CONFIG ex_state_full) ex_scheme (clamp_negative [Fin 2, Fin 1])
                       = Inr (Fin 2, [Fin 2, Fin 1])"
    unfolding row sch bm .
  have "[Fin 1, Fin (1 / 2)] = map (\<lambda>a. f_div F64 a (Fin 2)) [Fin 2, Fin 1]"
    by (simp add: rnd_vals)
  with m' t ex_full_signal(1) show ?thesis by blast
qed

lemma eps_positive: "\<not> f_lt (rnd F64 (1 / 10 ^ 16)) (Fin 0)"
  by (simp add: fl_eval)

lemma compute_nrmse_zero: "\<not> f_lt (rnd F64 (1 / 10 ^ 16)) (sum_squares y) \<Longrightarrow> compute_nrmse y y_est = Inr (Fin 0)"
  by (simp add: compute_nrmse_def)

text \<open>
  Claim C6. With the error computation enabled, a voxel's step stores in its slot of the
  error map the float32 value of \<open>sqrt (\<Sum>(y - y_est)\<^sup>2 / \<Sum>y\<^sup>2)\<close>, computed in double
  precision on the prepared signal \<open>y\<close> and the model's estimate, when \<open>\<Sum>y\<^sup>2\<close> exceeds
  \<open>1e-16\<close> (the difference is elementwise when both have the same length), and \<open>0\<close>
  otherwise. When \<open>\<Sum>y\<^sup>2\<close> is exactly zero the stored value is exactly \<open>0\<close>, and the
  computation returns it without dividing and without raising, whatever the estimate is.
\<close>

theorem nrmse_value:
  assumes "voxel_fit L s M K DTI idx v vars = Inr vars'" and "doComputeNRMSE (CONFIG s)"
  shows "\<exists>y dirs3 y_est dirs_mod row E'.
           voxel_signal s v = Inr y
           \<and> model_fit M y dirs3 K idx (solver_params (CONFIG s)) = Inr (y_est, dirs_mod, row)
           \<and> NRMSE vars' = Some E'
           \<and> (if f_lt (rnd F64 (1 / 10 ^ 16)) (sum_squares y)
               then \<exists>d. np_subtract y y_est = Inr d
                      \<and> (length y_est = length y \<longrightarrow> d = map2 (f_sub F64) y y_est)
                      \<and> at3 E' v = to_f32 (f_sqrt F64 (f_div F64 (sum_squares d) (sum_squares y)))
               else at3 E' v = Fin 0)
           \<and> (sum_squares y = Fin 0 \<longrightarrow> at3 E' v = Fin 0 \<and> compute_nrmse y y_est = Inr (Fin 0))"
proof -
  from assms(1) obtain y dirs3 y_est dirs_mod row N where
    a1: "voxel_signal s v = Inr y"
    and a4: "model_fit M y dirs3 K idx (solver_params (CONFIG s)) = Inr (y_est, dirs_mod, row)"
    and a7: "store_nrmse s vars v y y_est = Inr N"
    and a8: "NRMSE vars' = N"
    by (auto simp: voxel_fit_def split: sum.splits prod.splits)
  from a7 assms(2) obtain E x where
    e: "NRMSE vars = Some E" "compute_nrmse y y_est = Inr x" "in_shape (shape3 E) v"
      "N = Some (E\<lparr>at3 := (at3 E)(v := to_f32 x)\<rparr>)"
    by (auto simp: store_nrmse_def set_elem_def split: option.splits sum.splits if_splits)
  have val: "if f_lt (rnd F64 (1 / 10 ^ 16)) (sum_squares y)
             then \<exists>d. np_subtract y y_est = Inr d
                    \<and> (length y_est = length y \<longrightarrow> d = map2 (f_sub F64) y y_est)
                    \<and> to_f32 x = to_f32 (f_sqrt F64 (f_div F64 (sum_squares d) (sum_squares y)))
             else to_f32 x = Fin 0"
    using e(2)
    by (auto simp: compute_nrmse_def Let_def np_subtract_def split: sum.splits if_splits)
  have z: "to_f32 x = Fin 0 \<and> compute_nrmse y y_est = Inr (Fin 0)" if "sum_squares y = Fin 0"
    using e(2) that eps_positive by (auto simp: compute_nrmse_def)
  show ?thesis
    using a1 a4 a8 e(4) val z
    by (intro exI [of _ y] exI [of _ dirs3] exI [of _ y_est] exI [of _ dirs_mod] exI [of _ row]
          exI [of _ "E\<lparr>at3 := (at3 E)(v := to_f32 x)\<rparr>"]) simp
qed


lemma ex_full_voxel0:
  "voxel_fit ex_libs ex_state_full ex_model ex_kernels (Some ()) (Some [1, 0]) (0, 0, 0) ex_full_init
     = Inr \<lparr>DIRs = \<lparr>shape4 = (2, 1, 1), len4 = 3,
                      at4 = (\<lambda>v. [Fin 0, Fin 0, Fin 0])((0, 0, 0) := [Fin 1, Fin 0, Fin 0])\<rparr>,
             MAPs = \<lparr>shape4 = (2, 1, 1), len4 = 1, at4 = (\<lambda>v. [Fin 0])((0, 0, 0) := [Fin 1])\<rparr>,
             NRMSE = Some \<lparr>shape3 = (2, 1, 1), at3 = (\<lambda>v. Fin 0)((0, 0, 0) := Fin 0)\<rparr>,
             progress = 1\<rparr>"
  by (simp add: fit_eval ex_state_full_fields ex_libs_fields ex_prepare ex_nrmse
        ex_scheme_fields ex_model_fields rnd_vals ex_full_init_def replicate_3)

theorem nrmse_value_witness:
  "(\<exists>vars' E'. voxel_fit ex_libs ex_state_full ex_model ex_kernels (Some ()) (Some [1, 0]) (0, 0, 0)
                   ex_full_init = Inr vars'
       \<and> NRMSE vars' = Some E'
       \<and> at3 E' (0, 0, 0)
           = to_f32 (f_sqrt F64 (f_div F64
                (sum_squares (map2 (f_sub F64) [Fin 1, Fin (1 / 2)] [Fin 1, Fin (1 / 2)]))
                (sum_squares [Fin 1, Fin (1 / 2)]))))
   \<and> f_lt (rnd F64 (1 / 10 ^ 16)) (sum_squares [Fin 1, Fin (1 / 2)])
   \<and> doComputeNRMSE (CONFIG ex_state_full)"
proof -
  have flag: "doComputeNRMSE (CONFIG ex_state_full)" by (simp add: ex_state_full_fields)
  have big: "f_lt (rnd F64 (1 / 10 ^ 16)) (sum_squares [Fin 1, Fin (1 / 2)])"
    by (simp add: sumsq fl_eval)
  from nrmse_value [OF ex_full_voxel0 flag] obtain y dirs3 y_est dirs_mod row E' where
    g: "voxel_signal ex_state_full (0, 0, 0) = Inr y"
      "model_fit ex_model y dirs3 ex_kernels (Some [1, 0]) (solver_params (CONFIG ex_state_full))
         = Inr (y_est, dirs_mod, row)"
      "NRMSE \<lparr>DIRs = \<lparr>shape4 = (2, 1, 1), len4 = 3,
                      at4 = (\<lambda>v. [Fin 0, Fin 0, Fin 0])((0, 0, 0) := [Fin 1, Fin 0, Fin 0])\<rparr>,
             MAPs = \<lparr>shape4 = (2, 1, 1), len4 = 1, at4 = (\<lambda>v. [Fin 0])((0, 0, 0) := [Fin 1])\<rparr>,
             NRMSE = Some \<lparr>shape3 = (2, 1, 1), at3 = (\<lambda>v. Fin 0)((0, 0, 0) := Fin 0)\<rparr>,
             progress = 1\<rparr> = Some E'"
      "if f_lt (rnd F64 (1 / 10 ^ 16)) (sum_squares y)
       then \<exists>d. np_subtract y y_est = Inr d
              \<and> (length y_est = length y \<longrightarrow> d = map2 (f_sub F64) y y_est)
              \<and> at3 E' (0, 0, 0) = to_f32 (f_sqrt F64 (f_div F64 (sum_squares d) (sum_squares y)))
       else at3 E' (0, 0, 0) = Fin 0"
    by blast
  from g(1) have y: "y = [Fin 1, Fin (1 / 2)]" by (simp add: ex_full_signal)
  from g(2) have ye: "y_est = [Fin 1, Fin (1 / 2)]" by (auto simp: ex_model_fields y)
  from g(4) big have "at3 E' (0, 0, 0)
           = to_f32 (f_sqrt F64 (f_div F64
                (sum_squares (map2 (f_sub F64) [Fin 1, Fin (1 / 2)] [Fin 1, Fin (1 / 2)]))
                (sum_squares [Fin 1, Fin (1 / 2)])))"
    unfolding y ye by auto
  with g(3) ex_full_voxel0 flag big show ?thesis by blast
qed

subsection \<open>Voxels outside the mask\<close>

lemma setup_directions_init:
  assumes "setup_directions L s = Inr (dirs, DTI)"
  shows "case peaks_filename (CONFIG s) of
           None \<Rightarrow> (\<exists>d. dim (CONFIG s) = Some d \<and> dirs = zeros4 d 3)
         | Some f \<Rightarrow> (\<exists>nii. nibabel_load L (pjoin (DATA_path (CONFIG s)) f) = Inr nii
                        \<and> dirs = astype_f32 (nii_data nii))"
  using assms
  by (auto simp: setup_directions_def split: option.splits sum.splits if_splits)

lemma setup_outputs_init:
  assumes "setup_outputs s M = Inr (maps, nrmse, idx)"
  shows "\<exists>d. dim (CONFIG s) = Some d \<and> maps = zeros4 d (length (OUTPUT_names M))
           \<and> nrmse = (if doComputeNRMSE (CONFIG s) then Some (zeros3 d) else None)"
  using assms
  by (auto simp: setup_outputs_def Let_def split: option.splits sum.splits if_splits list.splits)

text \<open>
  Claim C1, as amended. Let \<^verbatim>\<open>fit\<close> return normally and let the mask be zero at a voxel.
  Then the voxel's row of the output maps is all zeros, as initialised; its entry of the
  error map is zero when the error computation is enabled (there is no error map
  otherwise); and its row of the direction volume is what the volume was initialised
  with: zeros when the directions are estimated in the pipeline, and the float32 values
  of the peaks file at that voxel when peaks are supplied, since the direction volume is
  then the loaded peaks volume itself, updated in place at the voxels of the mask.
\<close>

theorem masked_out_slots:
  assumes "fit L s = (None, s')" and "niiMASK_img s = Some msk" and "at3 msk v = 0"
  shows "\<exists>r M. RESULTS s' = Some r \<and> model s = Some M
           \<and> at4 (res_MAPs r) v = replicate (length (OUTPUT_names M)) (Fin 0)
           \<and> (if doComputeNRMSE (CONFIG s) then \<exists>E. res_NRMSE r = Some E \<and> at3 E v = Fin 0
               else res_NRMSE r = None)
           \<and> (case peaks_filename (CONFIG s) of
                 None \<Rightarrow> at4 (res_DIRs r) v = replicate 3 (Fin 0)
               | Some f \<Rightarrow> \<exists>nii. nibabel_load L (pjoin (DATA_path (CONFIG s)) f) = Inr nii
                             \<and> at4 (res_DIRs r) v = map to_f32 (at4 (nii_data nii) v))"
proof -
  let ?s1 = "s\<lparr>CONFIG := (CONFIG s)\<lparr>fit_time := None\<rparr>\<rparr>"
  from fit_success [OF assms(1)] obtain M K vars where
    M: "model s = Some M"
    and fb: "fit_body L ?s1 M K = Inr vars"
    and r: "RESULTS s' = Some \<lparr>res_DIRs = DIRs vars, res_MAPs = MAPs vars, res_NRMSE = NRMSE vars\<rparr>"
    by auto
  from fit_body_success [OF fb] assms(2) obtain dirs DTI maps nrmse idx where
    sd: "setup_directions L ?s1 = Inr (dirs, DTI)"
    and so: "setup_outputs ?s1 M = Inr (maps, nrmse, idx)"
    and lp: "fit_loop L ?s1 M K DTI idx msk (voxels (shape3 msk))
               \<lparr>DIRs = dirs, MAPs = maps, NRMSE = nrmse, progress = 0\<rparr> = Inr vars"
    by auto
  from fit_loop_char [OF voxels_distinct lp] assms(3)
  have "slot vars v = slot \<lparr>DIRs = dirs, MAPs = maps, NRMSE = nrmse, progress = 0\<rparr> v"
    by (metis (no_types, lifting))
  then have sl: "at4 (DIRs vars) v = at4 dirs v" "at4 (MAPs vars) v = at4 maps v"
    "map_option (\<lambda>E. at3 E v) (NRMSE vars) = map_option (\<lambda>E. at3 E v) nrmse"
    by (simp_all add: slot_def)
  from setup_outputs_init [OF so] obtain d where
    d: "maps = zeros4 d (length (OUTPUT_names M))"
      "nrmse = (if doComputeNRMSE (CONFIG s) then Some (zeros3 d) else None)"
    by auto
  have m: "at4 (MAPs vars) v = replicate (length (OUTPUT_names M)) (Fin 0)"
    using sl(2) d(1) by (simp add: zeros4_def)
  have n: "if doComputeNRMSE (CONFIG s) then \<exists>E. NRMSE vars = Some E \<and> at3 E v = Fin 0
           else NRMSE vars = None"
    using sl(3) d(2) by (auto simp: zeros3_def)
  have dd: "case peaks_filename (CONFIG s) of
                 None \<Rightarrow> at4 (DIRs vars) v = replicate 3 (Fin 0)
               | Some f \<Rightarrow> \<exists>nii. nibabel_load L (pjoin (DATA_path (CONFIG s)) f) = Inr nii
                             \<and> at4 (DIRs vars) v = map to_f32 (at4 (nii_data nii) v)"
    using setup_directions_init [OF sd] sl(1)
    by (auto simp: zeros4_def astype_f32_def split: option.splits)
  show ?thesis using r M m n dd by (auto split: option.splits)
qed

lemma ex_state_peaks_fields:
  "niiDWI ex_state_peaks = Some ex_dwi"
  "niiDWI_img ex_state_peaks = Some \<lparr>shape4 = (2, 1, 1), len4 = 2,
      at4 = (\<lambda>v. if v = (0, 0, 0) then [Fin 2, Fin 1] else [Fin 4, Fin (- 1)])\<rparr>"
  "scheme ex_state_peaks = Some ex_scheme"
  "niiMASK_img ex_state_peaks = Some \<lparr>shape3 = (2, 1, 1), at3 = (\<lambda>v. if v = (0, 0, 0) then 1 else 0)\<rparr>"
  "model ex_state_peaks = Some ex_model"
  "KERNELS ex_state_peaks = Some ex_kernels"
  "CONFIG ex_state_peaks = \<lparr>study_path = ''study'', subject = ''subj'', DATA_path = ''study/subj'',
                peaks_filename = Some ''peaks.nii'', doNormalizeSignal = True, doMergeB0 = True,
                doComputeNRMSE = True, dwi_filename = Some ''DWI.nii'', scheme_filename = Some ''DWI.scheme'',
                b0_thr = Some (Fin 0), dim = Some (2, 1, 1), pixdim = Some (Fin 2, Fin 2, Fin 2), ATOMS_path = None,
                solver_params = None, lmax = None, fit_time = None\<rparr>"
  by (simp_all add: ex_state_peaks_def ex_state_fields)

lemma ex_peaks_fit:
  "fit ex_libs ex_state_peaks
     = (None, ex_state_peaks\<lparr>CONFIG := (CONFIG ex_state_peaks)\<lparr>fit_time := Some (Fin 1)\<rparr>,
          RESULTS := Some
            \<lparr>res_DIRs = \<lparr>shape4 = (2, 1, 1), len4 = 3, at4 = (\<lambda>v. [Fin 0, Fin 1, Fin 0])\<rparr>,
             res_MAPs = \<lparr>shape4 = (2, 1, 1), len4 = 1,
                          at4 = (\<lambda>v. if v = (0, 0, 0) then [Fin 1] else [Fin 0])\<rparr>,
             res_NRMSE = Some \<lparr>shape3 = (2, 1, 1), at3 = (\<lambda>v. Fin 0)\<rparr>\<rparr>\<rparr>)"
  by (simp add: fit_eval ex_state_peaks_fields ex_libs_fields ex_prepare ex_nrmse pjoin_def
        ex_scheme_fields ex_model_fields ex_kernels_def rnd_vals replicate_3 voxels_211
        ex_peaks_def astype_f32_def fun_eq_iff)

text \<open>
  The claim as stated asks for zeros in the direction volume as well when peaks are
  supplied. In the small evaluation with the peaks file, the second voxel is outside the
  mask and its directions after the fit are those of the file, \<open>(0, 1, 0)\<close>.
\<close>

theorem masked_out_directions_counterexample:
  "fst (fit ex_libs ex_state_peaks) = None
   \<and> map_option (\<lambda>m. at3 m (1, 0, 0)) (niiMASK_img ex_state_peaks) = Some 0
   \<and> map_option (\<lambda>r. at4 (res_DIRs r) (1, 0, 0)) (RESULTS (snd (fit ex_libs ex_state_peaks)))
       = Some [Fin 0, Fin 1, Fin 0]"
  by (simp add: ex_peaks_fit ex_state_peaks_fields)


theorem masked_out_slots_witness:
  "fst (fit ex_libs ex_state_peaks) = None
   \<and> (\<exists>r. RESULTS (snd (fit ex_libs ex_state_peaks)) = Some r
          \<and> at4 (res_MAPs r) (1, 0, 0) = [Fin 0]
          \<and> (\<exists>E. res_NRMSE r = Some E \<and> at3 E (1, 0, 0) = Fin 0)
          \<and> at4 (res_DIRs r) (1, 0, 0) = map to_f32 (at4 (nii_data ex_peaks) (1, 0, 0)))"
proof -
  let ?msk = "\<lparr>shape3 = (2, 1, 1), at3 = (\<lambda>v. if v = (0, 0, 0) then 1 else (0 :: 8 word))\<rparr>"
  have f: "fit ex_libs ex_state_peaks = (None, snd (fit ex_libs ex_state_peaks))"
    by (simp add: ex_peaks_fit)
  have m: "niiMASK_img ex_state_peaks = Some ?msk" by (simp add: ex_state_peaks_fields)
  have z: "at3 ?msk (1, 0, 0) = 0" by simp
  have p: "nibabel_load ex_libs (pjoin (DATA_path (CONFIG ex_state_peaks)) ''peaks.nii'') = Inr ex_peaks"
    by (simp add: ex_state_peaks_fields pjoin_def ex_libs_fields)
  from masked_out_slots [OF f m z] p
  have "\<exists>r. RESULTS (snd (fit ex_libs ex_state_peaks)) = Some r
          \<and> at4 (res_MAPs r) (1, 0, 0) = [Fin 0]
          \<and> (\<exists>E. res_NRMSE r = Some E \<and> at3 E (1, 0, 0) = Fin 0)
          \<and> at4 (res_DIRs r) (1, 0, 0) = map to_f32 (at4 (nii_data ex_peaks) (1, 0, 0))"
    by (auto simp: ex_state_peaks_fields ex_model_fields)
  moreover have "fst (fit ex_libs ex_state_peaks) = None" by (simp add: ex_peaks_fit)
  ultimately show ?thesis by blast
qed

subsection \<open>Independence of the voxels\<close>

lemma voxel_fit_libs_cong:
  assumes "voxel_signal t v = voxel_signal s v" "CONFIG t = CONFIG s"
    "tensor_directions L2 = tensor_directions L"
  shows "voxel_fit L2 t M K DTI idx v vars = voxel_fit L s M K DTI idx v vars"
  by (simp add: voxel_fit_def voxel_dirs_def store_nrmse_def assms
        cong: sum.case_cong option.case_cong prod.case_cong if_cong)

lemma voxel_signal_rows:
  assumes "niiDWI_img s = Some img" "niiDWI_img t = Some img2" "shape4 img2 = shape4 img"
    "at4 img2 v = at4 img v" "scheme t = scheme s" "CONFIG t = CONFIG s"
  shows "voxel_signal t v = voxel_signal s v"
  by (simp add: voxel_signal_def get_row_def assms cong: option.case_cong)

lemma setup_outputs_cong:
  assumes "scheme t = scheme s" "CONFIG t = CONFIG s"
  shows "setup_outputs t M = setup_outputs s M"
  by (simp add: setup_outputs_def assms cong: option.case_cong if_cong)


lemma voxel_fit_cong:
  assumes "voxel_fit L s M K DTI idx v a = Inr a'"
    and "voxel_signal t v = voxel_signal s v" "CONFIG t = CONFIG s"
    and "tensor_directions L2 = tensor_directions L"
    and "same_layout a c" "slot c v = slot a v"
  shows "\<exists>c'. voxel_fit L2 t M K DTI idx v c = Inr c' \<and> slot c' v = slot a' v"
  using voxel_fit_local [OF assms(1,5,6)] voxel_fit_libs_cong [OF assms(2,3,4)]
  by simp

lemma fit_any_order:
  assumes "fit L s = (None, s')" and "niiMASK_img s = Some msk"
    and "distinct vs'" and "set vs' = set (voxels (shape3 msk))"
  shows "\<exists>M K dirs DTI maps nrmse idx vars.
           model s = Some M \<and> KERNELS s = Some K
           \<and> setup_directions L (s\<lparr>CONFIG := (CONFIG s)\<lparr>fit_time := None\<rparr>\<rparr>) = Inr (dirs, DTI)
           \<and> setup_outputs (s\<lparr>CONFIG := (CONFIG s)\<lparr>fit_time := None\<rparr>\<rparr>) M = Inr (maps, nrmse, idx)
           \<and> fit_loop L (s\<lparr>CONFIG := (CONFIG s)\<lparr>fit_time := None\<rparr>\<rparr>) M K DTI idx msk vs'
                \<lparr>DIRs = dirs, MAPs = maps, NRMSE = nrmse, progress = 0\<rparr> = Inr vars
           \<and> RESULTS s' = Some \<lparr>res_DIRs = DIRs vars, res_MAPs = MAPs vars,
                                 res_NRMSE = NRMSE vars\<rparr>"
proof -
  let ?s1 = "s\<lparr>CONFIG := (CONFIG s)\<lparr>fit_time := None\<rparr>\<rparr>"
  from fit_success [OF assms(1)] obtain M K vars where
    M: "model s = Some M" "KERNELS s = Some K"
    and fb: "fit_body L ?s1 M K = Inr vars"
    and r: "RESULTS s' = Some \<lparr>res_DIRs = DIRs vars, res_MAPs = MAPs vars, res_NRMSE = NRMSE vars\<rparr>"
    by auto
  from fit_body_success [OF fb] assms(2) obtain dirs DTI maps nrmse idx where
    sd: "setup_directions L ?s1 = Inr (dirs, DTI)"
    and so: "setup_outputs ?s1 M = Inr (maps, nrmse, idx)"
    and lp: "fit_loop L ?s1 M K DTI idx msk (voxels (shape3 msk))
               \<lparr>DIRs = dirs, MAPs = maps, NRMSE = nrmse, progress = 0\<rparr> = Inr vars"
    by auto
  from fit_loop_order [OF voxels_distinct assms(3,4) lp] M sd so r
  show ?thesis by blast
qed

lemma setup_directions_two:
  assumes "setup_directions L s = Inr (d1, T1)" and "setup_directions L2 t = Inr (d2, T2)"
    and "CONFIG t = CONFIG s" and "scheme t = scheme s" and "TensorModel L2 = TensorModel L"
    and "niiMASK_img s = Some msk" and "niiMASK_img t = Some msk2" and "shape3 msk2 = shape3 msk"
    and "\<And>f n1 n2. peaks_filename (CONFIG s) = Some f \<Longrightarrow>
           nibabel_load L (pjoin (DATA_path (CONFIG s)) f) = Inr n1 \<Longrightarrow>
           nibabel_load L2 (pjoin (DATA_path (CONFIG s)) f) = Inr n2 \<Longrightarrow>
           len4 (nii_data n2) = len4 (nii_data n1) \<and> at4 (nii_data n2) v = at4 (nii_data n1) v"
  shows "T2 = T1 \<and> shape4 d2 = shape4 d1 \<and> len4 d2 = len4 d1 \<and> at4 d2 v = at4 d1 v"
proof (cases "peaks_filename (CONFIG s)")
  case None
  with assms(1,2,3,4,5) show ?thesis
    by (auto simp: setup_directions_def split: option.splits sum.splits)
next
  case (Some f)
  with assms(1,6) obtain n1 where
    n1: "nibabel_load L (pjoin (DATA_path (CONFIG s)) f) = Inr n1"
      "shape4 (astype_f32 (nii_data n1)) = shape3 msk" "d1 = astype_f32 (nii_data n1)" "T1 = None"
    by (auto simp: setup_directions_def split: option.splits sum.splits if_splits)
  from Some assms(2,3,7) obtain n2 where
    n2: "nibabel_load L2 (pjoin (DATA_path (CONFIG s)) f) = Inr n2"
      "shape4 (astype_f32 (nii_data n2)) = shape3 msk2" "d2 = astype_f32 (nii_data n2)" "T2 = None"
    by (auto simp: setup_directions_def split: option.splits sum.splits if_splits)
  from assms(9) [OF Some n1(1) n2(1)] n1 n2 assms(8) show ?thesis
    by (simp add: astype_f32_def)
qed

lemma fit_local:
  assumes s: "fit L s = (None, s')" and t: "fit L2 t = (None, t')"
    and img: "niiDWI_img s = Some img" and msk: "niiMASK_img s = Some msk"
    and tdef: "t = s\<lparr>niiDWI_img := Some img2, niiMASK_img := Some msk2\<rparr>"
    and geo: "shape4 img2 = shape4 img" "shape3 msk2 = shape3 msk"
    and same: "at4 img2 v = at4 img v" "at3 msk2 v = at3 msk v"
    and libs: "TensorModel L2 = TensorModel L" "tensor_directions L2 = tensor_directions L"
    and peaks: "\<And>f n1 n2. peaks_filename (CONFIG s) = Some f \<Longrightarrow>
           nibabel_load L (pjoin (DATA_path (CONFIG s)) f) = Inr n1 \<Longrightarrow>
           nibabel_load L2 (pjoin (DATA_path (CONFIG s)) f) = Inr n2 \<Longrightarrow>
           len4 (nii_data n2) = len4 (nii_data n1) \<and> at4 (nii_data n2) v = at4 (nii_data n1) v"
  shows "\<exists>r r'. RESULTS s' = Some r \<and> RESULTS t' = Some r'
           \<and> at4 (res_DIRs r') v = at4 (res_DIRs r) v
           \<and> at4 (res_MAPs r') v = at4 (res_MAPs r) v
           \<and> map_option (\<lambda>E. at3 E v) (res_NRMSE r') = map_option (\<lambda>E. at3 E v) (res_NRMSE r)"
proof -
  let ?s1 = "s\<lparr>CONFIG := (CONFIG s)\<lparr>fit_time := None\<rparr>\<rparr>"
  let ?t1 = "t\<lparr>CONFIG := (CONFIG t)\<lparr>fit_time := None\<rparr>\<rparr>"
  from fit_success [OF s] obtain M K vars where
    M: "model s = Some M" "KERNELS s = Some K"
    and fb: "fit_body L ?s1 M K = Inr vars"
    and r: "RESULTS s' = Some \<lparr>res_DIRs = DIRs vars, res_MAPs = MAPs vars, res_NRMSE = NRMSE vars\<rparr>"
    by auto
  from fit_success [OF t] M tdef obtain vars2 where
    fb2: "fit_body L2 ?t1 M K = Inr vars2"
    and r2: "RESULTS t' = Some \<lparr>res_DIRs = DIRs vars2, res_MAPs = MAPs vars2, res_NRMSE = NRMSE vars2\<rparr>"
    by auto
  have msk1: "niiMASK_img ?s1 = Some msk" using msk by simp
  have msk2: "niiMASK_img ?t1 = Some msk2" using tdef by simp
  from fit_body_success [OF fb] msk1 obtain dirs DTI maps nrmse idx where
    sd: "setup_directions L ?s1 = Inr (dirs, DTI)"
    and so: "setup_outputs ?s1 M = Inr (maps, nrmse, idx)"
    and lp: "fit_loop L ?s1 M K DTI idx msk (voxels (shape3 msk))
               \<lparr>DIRs = dirs, MAPs = maps, NRMSE = nrmse, progress = 0\<rparr> = Inr vars"
    by auto
  from fit_body_success [OF fb2] msk2 obtain dirs2 DTI2 maps2 nrmse2 idx2 where
    sd2: "setup_directions L2 ?t1 = Inr (dirs2, DTI2)"
    and so2: "setup_outputs ?t1 M = Inr (maps2, nrmse2, idx2)"
    and lp2: "fit_loop L2 ?t1 M K DTI2 idx2 msk2 (voxels (shape3 msk2))
               \<lparr>DIRs = dirs2, MAPs = maps2, NRMSE = nrmse2, progress = 0\<rparr> = Inr vars2"
    by auto
  have cfg: "CONFIG ?t1 = CONFIG ?s1" and sch: "scheme ?t1 = scheme ?s1" using tdef by simp_all
  have "setup_outputs ?t1 M = setup_outputs ?s1 M" by (rule setup_outputs_cong [OF sch cfg])
  with so so2 have outs: "maps2 = maps" "nrmse2 = nrmse" "idx2 = idx" by simp_all
  have pk: "len4 (nii_data n2) = len4 (nii_data n1) \<and> at4 (nii_data n2) v = at4 (nii_data n1) v"
    if "peaks_filename (CONFIG ?s1) = Some f"
      and "nibabel_load L (pjoin (DATA_path (CONFIG ?s1)) f) = Inr n1"
      and "nibabel_load L2 (pjoin (DATA_path (CONFIG ?s1)) f) = Inr n2"
    for f n1 n2
  proof -
    from that have "peaks_filename (CONFIG s) = Some f"
      "nibabel_load L (pjoin (DATA_path (CONFIG s)) f) = Inr n1"
      "nibabel_load L2 (pjoin (DATA_path (CONFIG s)) f) = Inr n2"
      by simp_all
    then show ?thesis by (rule peaks)
  qed
  from setup_directions_two [OF sd sd2 cfg sch libs(1) msk1 msk2 geo(2) pk]
  have dd: "DTI2 = DTI" "shape4 dirs2 = shape4 dirs" "len4 dirs2 = len4 dirs"
    "at4 dirs2 v = at4 dirs v"
    by simp_all
  let ?a = "\<lparr>DIRs = dirs, MAPs = maps, NRMSE = nrmse, progress = 0\<rparr>"
  let ?c = "\<lparr>DIRs = dirs2, MAPs = maps, NRMSE = nrmse, progress = 0\<rparr>"
  have lay: "same_layout ?a ?c" using dd by (simp add: same_layout_def)
  have sl0: "slot ?c v = slot ?a v" using dd by (simp add: slot_def)
  have sig: "voxel_signal ?t1 v = voxel_signal ?s1 v"
    by (rule voxel_signal_rows [where img = img and ?img2.0 = img2])
      (use img tdef geo same in simp_all)
  from fit_loop_char [OF voxels_distinct lp]
  have c1: "if v \<in> set (voxels (shape3 msk)) \<and> at3 msk v \<noteq> 0
            then (\<exists>a'. voxel_fit L ?s1 M K DTI idx v ?a = Inr a' \<and> slot vars v = slot a' v)
            else slot vars v = slot ?a v"
    by (elim conjE allE [of _ v])
  from fit_loop_char [OF voxels_distinct lp2 [unfolded outs dd(1)]]
  have c2: "if v \<in> set (voxels (shape3 msk2)) \<and> at3 msk2 v \<noteq> 0
            then (\<exists>a'. voxel_fit L2 ?t1 M K DTI idx v ?c = Inr a' \<and> slot vars2 v = slot a' v)
            else slot vars2 v = slot ?c v"
    by (elim conjE allE [of _ v])
  have "slot vars2 v = slot vars v"
  proof (cases "v \<in> set (voxels (shape3 msk)) \<and> at3 msk v \<noteq> 0")
    case True
    with c1 obtain a1 where a1: "voxel_fit L ?s1 M K DTI idx v ?a = Inr a1" "slot vars v = slot a1 v"
      by auto
    from True c2 obtain a2 where
      a2: "voxel_fit L2 ?t1 M K DTI idx v ?c = Inr a2" "slot vars2 v = slot a2 v"
      unfolding geo(2) same(2) by auto
    from voxel_fit_cong [OF a1(1) sig cfg libs(2) lay sl0] obtain c' where
      "voxel_fit L2 ?t1 M K DTI idx v ?c = Inr c'" "slot c' v = slot a1 v"
      by blast
    with a2(1) have "slot a2 v = slot a1 v" by simp
    with a1(2) a2(2) show ?thesis by simp
  next
    case False
    with c1 have "slot vars v = slot ?a v" by auto
    moreover from False c2 have "slot vars2 v = slot ?c v"
      unfolding geo(2) same(2) by auto
    ultimately show ?thesis using sl0 by simp
  qed
  with r r2 show ?thesis by (simp add: slot_def)
qed


text \<open>
  Claim C9. Let \<^verbatim>\<open>fit\<close> return normally. First, the order of the voxels does not matter:
  running the loop from the same initial arrays over any arrangement of the voxels of the
  volume, each visited once, returns normally with exactly the arrays that \<^verbatim>\<open>fit\<close> stored
  in \<^verbatim>\<open>RESULTS\<close>. Second, what is stored for a voxel depends on nothing but that voxel's
  own data: take another signal volume and another mask of the same shapes, and other
  libraries with the same tensor fit, such that the voxel has the same samples, the same
  mask value and, when peaks are supplied, the same entry (of the same length) in the
  peaks volume, while scheme, model, kernels and configuration are shared; if \<^verbatim>\<open>fit\<close>
  returns normally there too, the voxel has the same directions, the same output row and
  the same fitting error in both results. The model's \<^verbatim>\<open>fit\<close> and the tensor fit are
  functions of their arguments.
\<close>

theorem voxel_independence:
  fixes L L2 :: "('g, 'a, 'i) libs" and s :: "('k, 'p, 'a, 'i) evaluation"
  assumes "fit L s = (None, s')" and "niiMASK_img s = Some msk" and "niiDWI_img s = Some img"
  shows "(\<forall>vs'. distinct vs' \<and> set vs' = set (voxels (shape3 msk)) \<longrightarrow>
           (\<exists>M K dirs DTI maps nrmse idx vars.
              model s = Some M \<and> KERNELS s = Some K
              \<and> setup_directions L (s\<lparr>CONFIG := (CONFIG s)\<lparr>fit_time := None\<rparr>\<rparr>) = Inr (dirs, DTI)
              \<and> setup_outputs (s\<lparr>CONFIG := (CONFIG s)\<lparr>fit_time := None\<rparr>\<rparr>) M
                  = Inr (maps, nrmse, idx)
              \<and> fit_loop L (s\<lparr>CONFIG := (CONFIG s)\<lparr>fit_time := None\<rparr>\<rparr>) M K DTI idx msk vs'
                   \<lparr>DIRs = dirs, MAPs = maps, NRMSE = nrmse, progress = 0\<rparr> = Inr vars
              \<and> RESULTS s' = Some \<lparr>res_DIRs = DIRs vars, res_MAPs = MAPs vars,
                                    res_NRMSE = NRMSE vars\<rparr>))
       \<and> (\<forall>img2 msk2 t' v.
             fit L2 (s\<lparr>niiDWI_img := Some img2, niiMASK_img := Some msk2\<rparr>) = (None, t')
             \<and> shape4 img2 = shape4 img \<and> shape3 msk2 = shape3 msk
             \<and> at4 img2 v = at4 img v \<and> at3 msk2 v = at3 msk v
             \<and> TensorModel L2 = TensorModel L \<and> tensor_directions L2 = tensor_directions L
             \<and> (\<forall>f n1 n2. peaks_filename (CONFIG s) = Some f
                    \<and> nibabel_load L (pjoin (DATA_path (CONFIG s)) f) = Inr n1
                    \<and> nibabel_load L2 (pjoin (DATA_path (CONFIG s)) f) = Inr n2 \<longrightarrow>
                    len4 (nii_data n2) = len4 (nii_data n1)
                    \<and> at4 (nii_data n2) v = at4 (nii_data n1) v) \<longrightarrow>
             (\<exists>r r'. RESULTS s' = Some r \<and> RESULTS t' = Some r'
                \<and> at4 (res_DIRs r') v = at4 (res_DIRs r) v
                \<and> at4 (res_MAPs r') v = at4 (res_MAPs r) v
                \<and> map_option (\<lambda>E. at3 E v) (res_NRMSE r')
                    = map_option (\<lambda>E. at3 E v) (res_NRMSE r)))"
proof (intro conjI allI impI)
  fix vs'
  assume "distinct vs' \<and> set vs' = set (voxels (shape3 msk))"
  then show "\<exists>M K dirs DTI maps nrmse idx vars.
              model s = Some M \<and> KERNELS s = Some K
              \<and> setup_directions L (s\<lparr>CONFIG := (CONFIG s)\<lparr>fit_time := None\<rparr>\<rparr>) = Inr (dirs, DTI)
              \<and> setup_outputs (s\<lparr>CONFIG := (CONFIG s)\<lparr>fit_time := None\<rparr>\<rparr>) M
                  = Inr (maps, nrmse, idx)
              \<and> fit_loop L (s\<lparr>CONFIG := (CONFIG s)\<lparr>fit_time := None\<rparr>\<rparr>) M K DTI idx msk vs'
                   \<lparr>DIRs = dirs, MAPs = maps, NRMSE = nrmse, progress = 0\<rparr> = Inr vars
              \<and> RESULTS s' = Some \<lparr>res_DIRs = DIRs vars, res_MAPs = MAPs vars,
                                    res_NRMSE = NRMSE vars\<rparr>"
    using fit_any_order [OF assms(1,2)] by blast
next
  fix img2 msk2 t' v
  assume h: "fit L2 (s\<lparr>niiDWI_img := Some img2, niiMASK_img := Some msk2\<rparr>) = (None, t')
             \<and> shape4 img2 = shape4 img \<and> shape3 msk2 = shape3 msk
             \<and> at4 img2 v = at4 img v \<and> at3 msk2 v = at3 msk v
             \<and> TensorModel L2 = TensorModel L \<and> tensor_directions L2 = tensor_directions L
             \<and> (\<forall>f n1 n2. peaks_filename (CONFIG s) = Some f
                    \<and> nibabel_load L (pjoin (DATA_path (CONFIG s)) f) = Inr n1
                    \<and> nibabel_load L2 (pjoin (DATA_path (CONFIG s)) f) = Inr n2 \<longrightarrow>
                    len4 (nii_data n2) = len4 (nii_data n1)
                    \<and> at4 (nii_data n2) v = at4 (nii_data n1) v)"
  show "\<exists>r r'. RESULTS s' = Some r \<and> RESULTS t' = Some r'
                \<and> at4 (res_DIRs r') v = at4 (res_DIRs r) v
                \<and> at4 (res_MAPs r') v = at4 (res_MAPs r) v
                \<and> map_option (\<lambda>E. at3 E v) (res_NRMSE r')
                    = map_option (\<lambda>E. at3 E v) (res_NRMSE r)"
  proof (rule fit_local [OF assms(1) _ assms(3,2) refl])
    show "fit L2 (s\<lparr>niiDWI_img := Some img2, niiMASK_img := Some msk2\<rparr>) = (None, t')"
      using h by blast
    show "shape4 img2 = shape4 img" "shape3 msk2 = shape3 msk" "at4 img2 v = at4 img v"
      "at3 msk2 v = at3 msk v" "TensorModel L2 = TensorModel L"
      "tensor_directions L2 = tensor_directions L"
      using h by blast+
    fix f n1 n2
    assume "peaks_filename (CONFIG s) = Some f"
      "nibabel_load L (pjoin (DATA_path (CONFIG s)) f) = Inr n1"
      "nibabel_load L2 (pjoin (DATA_path (CONFIG s)) f) = Inr n2"
    with h show "len4 (nii_data n2) = len4 (nii_data n1) \<and> at4 (nii_data n2) v = at4 (nii_data n1) v"
      by blast
  qed
qed


lemma ex_other_fit:
  "fit ex_libs (ex_state_full\<lparr>niiDWI_img := Some ex_img2, niiMASK_img := Some ex_msk2\<rparr>)
     = (None, ex_state_full\<lparr>niiDWI_img := Some ex_img2, niiMASK_img := Some ex_msk2,
          CONFIG := (CONFIG ex_state_full)\<lparr>fit_time := Some (Fin 1)\<rparr>,
          RESULTS := Some
            \<lparr>res_DIRs = \<lparr>shape4 = (2, 1, 1), len4 = 3,
                          at4 = (\<lambda>v. if v = (0, 0, 0) then [Fin 1, Fin 0, Fin 0]
                                     else [Fin 0, Fin 0, Fin 0])\<rparr>,
             res_MAPs = \<lparr>shape4 = (2, 1, 1), len4 = 1,
                          at4 = (\<lambda>v. if v = (0, 0, 0) then [Fin 1] else [Fin 0])\<rparr>,
             res_NRMSE = Some \<lparr>shape3 = (2, 1, 1), at3 = (\<lambda>v. Fin 0)\<rparr>\<rparr>\<rparr>)"
  by (simp add: fit_eval ex_state_full_fields ex_libs_fields ex_prepare ex_nrmse
        ex_scheme_fields ex_model_fields ex_kernels_def rnd_vals replicate_3 voxels_211
        ex_img2_def ex_msk2_def fun_eq_iff)

theorem voxel_independence_witness:
  "(\<exists>M K dirs DTI maps nrmse idx vars.
      model ex_state_full = Some M \<and> KERNELS ex_state_full = Some K
      \<and> setup_directions ex_libs (ex_state_full\<lparr>CONFIG := (CONFIG ex_state_full)\<lparr>fit_time := None\<rparr>\<rparr>)
          = Inr (dirs, DTI)
      \<and> setup_outputs (ex_state_full\<lparr>CONFIG := (CONFIG ex_state_full)\<lparr>fit_time := None\<rparr>\<rparr>) M
          = Inr (maps, nrmse, idx)
      \<and> fit_loop ex_libs (ex_state_full\<lparr>CONFIG := (CONFIG ex_state_full)\<lparr>fit_time := None\<rparr>\<rparr>)
           M K DTI idx (ones3 (2, 1, 1)) [(1, 0, 0), (0, 0, 0)]
           \<lparr>DIRs = dirs, MAPs = maps, NRMSE = nrmse, progress = 0\<rparr> = Inr vars
      \<and> RESULTS (snd (fit ex_libs ex_state_full))
          = Some \<lparr>res_DIRs = DIRs vars, res_MAPs = MAPs vars, res_NRMSE = NRMSE vars\<rparr>)
   \<and> (\<exists>r r'. RESULTS (snd (fit ex_libs ex_state_full)) = Some r
         \<and> RESULTS (snd (fit ex_libs
               (ex_state_full\<lparr>niiDWI_img := Some ex_img2, niiMASK_img := Some ex_msk2\<rparr>))) = Some r'
         \<and> at4 (res_DIRs r') (0, 0, 0) = at4 (res_DIRs r) (0, 0, 0)
         \<and> at4 (res_MAPs r') (0, 0, 0) = at4 (res_MAPs r) (0, 0, 0)
         \<and> map_option (\<lambda>E. at3 E (0, 0, 0)) (res_NRMSE r')
             = map_option (\<lambda>E. at3 E (0, 0, 0)) (res_NRMSE r))"
proof -
  let ?img = "\<lparr>shape4 = (2, 1, 1), len4 = 2,
               at4 = (\<lambda>v. if v = (0, 0, 0) then [Fin 2, Fin 1] else [Fin 4, Fin (- 1)])\<rparr>"
  have f: "fit ex_libs ex_state_full = (None, snd (fit ex_libs ex_state_full))"
    by (simp add: ex_full_fit)
  have m: "niiMASK_img ex_state_full = Some (ones3 (2, 1, 1))"
    and i: "niiDWI_img ex_state_full = Some ?img"
    by (simp_all add: ex_state_full_fields)
  note w = voxel_independence [OF f m i, of ex_libs]
  have o: "distinct [(1, 0, 0), (0, 0, 0) :: voxel]
           \<and> set [(1, 0, 0), (0, 0, 0)] = set (voxels (shape3 (ones3 (2, 1, 1))))"
    by (auto simp: voxels_set ones3_def)
  from w o have a: "\<exists>M K dirs DTI maps nrmse idx vars.
      model ex_state_full = Some M \<and> KERNELS ex_state_full = Some K
      \<and> setup_directions ex_libs (ex_state_full\<lparr>CONFIG := (CONFIG ex_state_full)\<lparr>fit_time := None\<rparr>\<rparr>)
          = Inr (dirs, DTI)
      \<and> setup_outputs (ex_state_full\<lparr>CONFIG := (CONFIG ex_state_full)\<lparr>fit_time := None\<rparr>\<rparr>) M
          = Inr (maps, nrmse, idx)
      \<and> fit_loop ex_libs (ex_state_full\<lparr>CONFIG := (CONFIG ex_state_full)\<lparr>fit_time := None\<rparr>\<rparr>)
           M K DTI idx (ones3 (2, 1, 1)) [(1, 0, 0), (0, 0, 0)]
           \<lparr>DIRs = dirs, MAPs = maps, NRMSE = nrmse, progress = 0\<rparr> = Inr vars
      \<and> RESULTS (snd (fit ex_libs ex_state_full))
          = Some \<lparr>res_DIRs = DIRs vars, res_MAPs = MAPs vars, res_NRMSE = NRMSE vars\<rparr>"
    by blast
  let ?t = "ex_state_full\<lparr>niiDWI_img := Some ex_img2, niiMASK_img := Some ex_msk2\<rparr>"
  have h: "fit ex_libs ?t = (None, snd (fit ex_libs ?t))
             \<and> shape4 ex_img2 = shape4 ?img \<and> shape3 ex_msk2 = shape3 (ones3 (2, 1, 1))
             \<and> at4 ex_img2 (0, 0, 0) = at4 ?img (0, 0, 0)
             \<and> at3 ex_msk2 (0, 0, 0) = at3 (ones3 (2, 1, 1)) (0, 0, 0)
             \<and> TensorModel ex_libs = TensorModel ex_libs
             \<and> tensor_directions ex_libs = tensor_directions ex_libs
             \<and> (\<forall>f n1 n2. peaks_filename (CONFIG ex_state_full) = Some f
                    \<and> nibabel_load ex_libs (pjoin (DATA_path (CONFIG ex_state_full)) f) = Inr n1
                    \<and> nibabel_load ex_libs (pjoin (DATA_path (CONFIG ex_state_full)) f) = Inr n2 \<longrightarrow>
                    len4 (nii_data n2) = len4 (nii_data n1)
                    \<and> at4 (nii_data n2) (0, 0, 0) = at4 (nii_data n1) (0, 0, 0))"
  proof (intro conjI)
    show "fit ex_libs ?t = (None, snd (fit ex_libs ?t))" by (simp add: ex_other_fit)
  qed (simp_all add: ex_img2_def ex_msk2_def ones3_def ex_state_full_fields)
  from w h have b: "\<exists>r r'. RESULTS (snd (fit ex_libs ex_state_full)) = Some r
         \<and> RESULTS (snd (fit ex_libs ?t)) = Some r'
         \<and> at4 (res_DIRs r') (0, 0, 0) = at4 (res_DIRs r) (0, 0, 0)
         \<and> at4 (res_MAPs r') (0, 0, 0) = at4 (res_MAPs r) (0, 0, 0)
         \<and> map_option (\<lambda>E. at3 E (0, 0, 0)) (res_NRMSE r')
             = map_option (\<lambda>E. at3 E (0, 0, 0)) (res_NRMSE r)"
    by blast
  from a b show ?thesis by blast
qed

subsection \<open>Merging the b0 samples\<close>

lemma put_idx_length [simp]: "length (put_idx y idx c) = length y"
  unfolding put_idx_def by (induction idx arbitrary: y) simp_all

lemma put_idx_nth:
  "i < length y \<Longrightarrow> put_idx y idx c ! i = (if i \<in> set idx then c else y ! i)"
  unfolding put_idx_def
proof (induction idx arbitrary: y)
  case Nil
  then show ?case by simp
next
  case (Cons j idx)
  then show ?case by (auto simp: nth_list_update)
qed

lemma take_idx_Inr:
  "take_idx y idx = Inr ys \<longleftrightarrow> (\<forall>i \<in> set idx. i < length y) \<and> ys = map (\<lambda>i. y ! i) idx"
  by (auto simp: take_idx_def list_all_iff)

lemma take_idx_put_idx:
  assumes "\<forall>i \<in> set idx. i < length y"
  shows "take_idx (put_idx y idx c) idx = Inr (replicate (length idx) c)"
proof -
  have "map (\<lambda>i. put_idx y idx c ! i) idx = replicate (length idx) c"
    using assms by (auto simp: put_idx_nth map_replicate_const [symmetric] intro!: map_cong)
  then show ?thesis using assms by (simp add: take_idx_def list_all_iff)
qed


text \<open>
  Claim C4, as amended. When the b0 merging step returns \<open>(b0, y1)\<close> on a signal \<open>y\<close>, \<open>b0\<close>
  is the double-precision mean of the samples of \<open>y\<close> at the b0 indices and \<open>y1\<close> has the
  length of \<open>y\<close>. With merging enabled and a positive b0 count, every b0-indexed sample
  of \<open>y1\<close> is \<open>b0\<close> and every other sample is that of \<open>y\<close>. A second application returns
  normally; it writes to the b0-indexed samples the mean \<open>b1\<close> of as many copies of \<open>b0\<close>
  as there are b0 indices and leaves the other samples alone, so its result is the result
  of the first application exactly when \<open>b1 = b0\<close> (or there is no b0 index). In exact
  arithmetic the mean of copies of \<open>b0\<close> is \<open>b0\<close>; in double precision the sum of the
  copies is rounded at every addition and \<open>b1\<close> can differ from \<open>b0\<close> in the last bit.
  Without merging both applications return the signal unchanged.
\<close>

theorem b0_merging_twice:
  assumes "b0_merging cfg sch y = Inr (b0, y1)"
  shows "\<exists>b1 y2. b0_merging cfg sch y1 = Inr (b1, y2)
           \<and> b0 = np_mean (map (\<lambda>i. y ! i) (b0_idx sch))
           \<and> length y1 = length y \<and> length y2 = length y
           \<and> (if doMergeB0 cfg \<and> 0 < b0_count sch
               then b1 = np_mean (replicate (length (b0_idx sch)) b0)
                    \<and> (\<forall>i < length y. y1 ! i = (if i \<in> set (b0_idx sch) then b0 else y ! i))
                    \<and> (\<forall>i < length y. y2 ! i = (if i \<in> set (b0_idx sch) then b1 else y ! i))
                    \<and> (y2 = y1 \<longleftrightarrow> b1 = b0 \<or> b0_idx sch = [])
               else y1 = y \<and> y2 = y \<and> b1 = b0)"
proof -
  let ?idx = "b0_idx sch"
  from assms have rng: "\<forall>i \<in> set ?idx. i < length y"
    and b0: "b0 = np_mean (map (\<lambda>i. y ! i) ?idx)"
    and y1: "y1 = (if doMergeB0 cfg \<and> 0 < b0_count sch then put_idx y ?idx b0 else y)"
    by (auto simp: b0_merging_def Let_def take_idx_Inr split: sum.splits)
  show ?thesis
  proof (cases "doMergeB0 cfg \<and> 0 < b0_count sch")
    case False
    with y1 have "y1 = y" by simp
    with assms False b0 show ?thesis by auto
  next
    case True
    with y1 have y1': "y1 = put_idx y ?idx b0" by simp
    let ?b1 = "np_mean (replicate (length ?idx) b0)"
    let ?y2 = "put_idx y1 ?idx ?b1"
    have t: "take_idx y1 ?idx = Inr (replicate (length ?idx) b0)"
      unfolding y1' using rng by (rule take_idx_put_idx)
    have second: "b0_merging cfg sch y1 = Inr (?b1, ?y2)"
      using True by (simp add: b0_merging_def t Let_def)
    have n1: "\<forall>i < length y. y1 ! i = (if i \<in> set ?idx then b0 else y ! i)"
      by (simp add: y1' put_idx_nth)
    have n2: "\<forall>i < length y. ?y2 ! i = (if i \<in> set ?idx then ?b1 else y ! i)"
      by (simp add: y1' put_idx_nth)
    have len: "length y1 = length y" "length ?y2 = length y" by (simp_all add: y1')
    have eq: "?y2 = y1 \<longleftrightarrow> ?b1 = b0 \<or> ?idx = []"
    proof
      assume e: "?y2 = y1"
      show "?b1 = b0 \<or> ?idx = []"
      proof (cases ?idx)
        case Nil
        then show ?thesis by simp
      next
        case (Cons j js)
        then have j: "j \<in> set ?idx" "j < length y" using rng by simp_all
        from e have "?y2 ! j = y1 ! j" by simp
        with n1 n2 j show ?thesis by simp
      qed
    next
      assume "?b1 = b0 \<or> ?idx = []"
      then show "?y2 = y1"
      proof
        assume "?b1 = b0"
        then show ?thesis using n1 n2 len by (intro nth_equalityI) auto
      next
        assume "?idx = []"
        then show ?thesis by (simp add: put_idx_def)
      qed
    qed
    from second b0 len n1 n2 eq True show ?thesis by auto
  qed
qed

lemma rnd7: "rnd F64 7 = Fin 7"
  by (simp add: fl_eval)

lemma ex_mean7: "np_mean ex_y7 = Fin (2573485501354569 / 18014398509481984)"
  by (simp add: ex_y7_def np_mean_def np_sum_def pairwise_sum.simps rnd_vals rnd7 fl_eval)

lemma ex_mean7_again:
  "np_mean (replicate 7 (Fin (2573485501354569 / 18014398509481984)))
     = Fin (5146971002709137 / 36028797018963968)"
  by (simp add: np_mean_def np_sum_def pairwise_sum.simps rnd7 eval_nat_numeral fl_eval)


lemma ex_cfg_merge: "doMergeB0 (CONFIG ex_state_full)"
  by (simp add: ex_state_full_fields)

lemma ex_scheme7_fields:
  "b0_idx ex_scheme7 = [0, 1, 2, 3, 4, 5, 6]" "b0_count ex_scheme7 = 7"
  by (simp_all add: ex_scheme7_def)

lemma replicate_7: "replicate 7 x = [x, x, x, x, x, x, x]"
  by (simp add: eval_nat_numeral)

text \<open>
  The claim as stated, that two applications always give what one gives, fails for seven
  b0 samples with the values \<open>0, 0, 0, 0, 0, 0, 1\<close>: the first application writes the
  double nearest to \<open>1/7\<close>, which is \<open>5146971002709138 / 2\<^sup>5\<^sup>5\<close>, and the second writes
  \<open>5146971002709137 / 2\<^sup>5\<^sup>5\<close>, one unit in the last place below.
\<close>

theorem b0_merging_not_idempotent_counterexample:
  "b0_merging (CONFIG ex_state_full) ex_scheme7 ex_y7
     = Inr (Fin (2573485501354569 / 18014398509481984),
            replicate 7 (Fin (2573485501354569 / 18014398509481984)))
   \<and> b0_merging (CONFIG ex_state_full) ex_scheme7
         (replicate 7 (Fin (2573485501354569 / 18014398509481984)))
     = Inr (Fin (5146971002709137 / 36028797018963968),
            replicate 7 (Fin (5146971002709137 / 36028797018963968)))
   \<and> replicate 7 (Fin (5146971002709137 / 36028797018963968))
       \<noteq> replicate 7 (Fin (2573485501354569 / 18014398509481984))"
proof (intro conjI)
  have u1: "np_mean [Fin 0, Fin 0, Fin 0, Fin 0, Fin 0, Fin 0, Fin 1]
              = Fin (2573485501354569 / 18014398509481984)"
    using ex_mean7 by (simp add: ex_y7_def)
  show "b0_merging (CONFIG ex_state_full) ex_scheme7 ex_y7
     = Inr (Fin (2573485501354569 / 18014398509481984),
            replicate 7 (Fin (2573485501354569 / 18014398509481984)))"
    by (simp add: b0_merging_def take_idx_def ex_scheme7_fields ex_cfg_merge ex_y7_def u1 Let_def
          put_idx_def replicate_7)
  have u2: "np_mean [Fin (2573485501354569 / 18014398509481984),
                     Fin (2573485501354569 / 18014398509481984),
                     Fin (2573485501354569 / 18014398509481984),
                     Fin (2573485501354569 / 18014398509481984),
                     Fin (2573485501354569 / 18014398509481984),
                     Fin (2573485501354569 / 18014398509481984),
                     Fin (2573485501354569 / 18014398509481984)]
              = Fin (5146971002709137 / 36028797018963968)"
    using ex_mean7_again by (simp add: replicate_7)
  show "b0_merging (CONFIG ex_state_full) ex_scheme7
         (replicate 7 (Fin (2573485501354569 / 18014398509481984)))
     = Inr (Fin (5146971002709137 / 36028797018963968),
            replicate 7 (Fin (5146971002709137 / 36028797018963968)))"
    by (simp add: b0_merging_def take_idx_def ex_scheme7_fields ex_cfg_merge u2 Let_def
          put_idx_def replicate_7)
  show "replicate 7 (Fin (5146971002709137 / 36028797018963968))
       \<noteq> replicate 7 (Fin (2573485501354569 / 18014398509481984))"
    by (simp add: replicate_7)
qed

theorem b0_merging_twice_witness:
  "b0_merging (CONFIG ex_state_full) ex_scheme [Fin 2, Fin 1] = Inr (Fin 2, [Fin 2, Fin 1])
   \<and> (\<exists>b1 y2. b0_merging (CONFIG ex_state_full) ex_scheme [Fin 2, Fin 1] = Inr (b1, y2)
         \<and> b1 = np_mean (replicate (length (b0_idx ex_scheme)) (Fin 2))
         \<and> (y2 = [Fin 2, Fin 1] \<longleftrightarrow> b1 = Fin 2 \<or> b0_idx ex_scheme = []))"
proof -
  have m: "b0_merging (CONFIG ex_state_full) ex_scheme [Fin 2, Fin 1] = Inr (Fin 2, [Fin 2, Fin 1])"
    by (simp add: b0_merging_def take_idx_def ex_scheme_fields np_mean_single
          put_idx_def ex_cfg_merge Let_def)
  have c: "doMergeB0 (CONFIG ex_state_full) \<and> 0 < b0_count ex_scheme"
    by (simp add: ex_cfg_merge ex_scheme_fields)
  from b0_merging_twice [OF m] c
  have "\<exists>b1 y2. b0_merging (CONFIG ex_state_full) ex_scheme [Fin 2, Fin 1] = Inr (b1, y2)
         \<and> b1 = np_mean (replicate (length (b0_idx ex_scheme)) (Fin 2))
         \<and> (y2 = [Fin 2, Fin 1] \<longleftrightarrow> b1 = Fin 2 \<or> b0_idx ex_scheme = [])"
    by auto
  with m show ?thesis by blast
qed

end
